theory Spec2Isabelle
  imports Complex_Main "HOL-Library.Product_Lexorder" "HOL-Library.Multiset"
begin

section \<open>JavaScript numbers and values\<close>

text \<open>
  A JavaScript number is an IEEE double. The embedding keeps the four kinds of value the
  language distinguishes (a finite number, the two infinities and NaN) and the rules by
  which the arithmetic operators move between them: division by zero, the sum of
  opposite infinities, zero times infinity. The arithmetic of finite numbers is exact:
  rounding to the nearest double and overflow of a finite result are not modelled, and
  zero carries no sign (a zero divisor is \<open>+0\<close>, as \<open>x - x\<close> is in IEEE arithmetic).
  The difference of two doubles is zero only when they are equal, so whether a
  denominator \<open>max - min\<close> vanishes is the same question in the model and in the program.
\<close>

datatype jsnum = Fin real | PInf | NInf | NaN

fun is_finite :: "jsnum \<Rightarrow> bool" where
  "is_finite (Fin r) = True"
| "is_finite PInf = False"
| "is_finite NInf = False"
| "is_finite NaN = False"

fun jneg :: "jsnum \<Rightarrow> jsnum" where
  "jneg (Fin a) = Fin (- a)"
| "jneg PInf = NInf"
| "jneg NInf = PInf"
| "jneg NaN = NaN"

text \<open>\<open>a + b\<close>\<close>

fun jadd :: "jsnum \<Rightarrow> jsnum \<Rightarrow> jsnum" where
  "jadd NaN b = NaN"
| "jadd a NaN = NaN"
| "jadd (Fin a) (Fin b) = Fin (a + b)"
| "jadd (Fin a) PInf = PInf"
| "jadd (Fin a) NInf = NInf"
| "jadd PInf NInf = NaN"
| "jadd NInf PInf = NaN"
| "jadd PInf b = PInf"
| "jadd NInf b = NInf"

text \<open>\<open>a - b\<close>\<close>

definition jsub :: "jsnum \<Rightarrow> jsnum \<Rightarrow> jsnum" where
  "jsub a b = jadd a (jneg b)"

text \<open>The infinity whose sign is the sign of \<open>s\<close>; NaN when \<open>s\<close> is zero.\<close>

definition signed_inf :: "real \<Rightarrow> jsnum" where
  "signed_inf s = (if 0 < s then PInf else if s < 0 then NInf else NaN)"

text \<open>\<open>a * b\<close>\<close>

fun jmul :: "jsnum \<Rightarrow> jsnum \<Rightarrow> jsnum" where
  "jmul NaN b = NaN"
| "jmul a NaN = NaN"
| "jmul (Fin a) (Fin b) = Fin (a * b)"
| "jmul (Fin a) PInf = signed_inf a"
| "jmul (Fin a) NInf = signed_inf (- a)"
| "jmul PInf (Fin b) = signed_inf b"
| "jmul NInf (Fin b) = signed_inf (- b)"
| "jmul PInf PInf = PInf"
| "jmul PInf NInf = NInf"
| "jmul NInf PInf = NInf"
| "jmul NInf NInf = PInf"

text \<open>\<open>a / b\<close>: a finite number over zero is an infinity, zero over zero is NaN.\<close>

fun jdiv :: "jsnum \<Rightarrow> jsnum \<Rightarrow> jsnum" where
  "jdiv NaN b = NaN"
| "jdiv a NaN = NaN"
| "jdiv (Fin a) (Fin b) = (if b = 0 then signed_inf a else Fin (a / b))"
| "jdiv (Fin a) PInf = Fin 0"
| "jdiv (Fin a) NInf = Fin 0"
| "jdiv PInf (Fin b) = (if 0 \<le> b then PInf else NInf)"
| "jdiv NInf (Fin b) = (if 0 \<le> b then NInf else PInf)"
| "jdiv PInf b = NaN"
| "jdiv NInf b = NaN"

text \<open>\<open>0 < v\<close>, the test a sort applies to the comparator's result (NaN counts as 0).\<close>

fun is_positive :: "jsnum \<Rightarrow> bool" where
  "is_positive (Fin r) = (0 < r)"
| "is_positive PInf = True"
| "is_positive NInf = False"
| "is_positive NaN = False"

text \<open>
  The values a property or an array slot can hold. \<open>JObj\<close> stands for any other object
  (a function, an optimizer, a tensor), identified by a number.
\<close>

datatype jsval =
    JUndefined
  | JNull
  | JBool bool
  | JNum jsnum
  | JStr string
  | JArr "jsval list"
  | JObj nat

text \<open>ToBoolean, the test behind \<open>a || b\<close>.\<close>

fun truthy :: "jsval \<Rightarrow> bool" where
  "truthy JUndefined = False"
| "truthy JNull = False"
| "truthy (JBool b) = b"
| "truthy (JNum (Fin r)) = (r \<noteq> 0)"
| "truthy (JNum NaN) = False"
| "truthy (JNum n) = True"
| "truthy (JStr s) = (s \<noteq> [])"
| "truthy (JArr xs) = True"
| "truthy (JObj k) = True"

text \<open>\<open>a || b\<close>\<close>

definition js_or :: "jsval \<Rightarrow> jsval \<Rightarrow> jsval" where
  "js_or a b = (if truthy a then a else b)"

text \<open>
  The conversions of the language that the embedding does not spell out are parameters:
  the number a string denotes, the string a number prints as, and both conversions of an
  object. They are the same functions throughout one run.
\<close>

record runtime =
  strToNum :: "string \<Rightarrow> jsnum"
  numToStr :: "jsnum \<Rightarrow> string"
  objToNum :: "jsval \<Rightarrow> jsnum"
  objToStr :: "jsval \<Rightarrow> string"

text \<open>ToNumber, applied by \<open>-\<close>, \<open>*\<close> and \<open>/\<close> to each operand.\<close>

fun ToNumber :: "runtime \<Rightarrow> jsval \<Rightarrow> jsnum" where
  "ToNumber rt JUndefined = NaN"
| "ToNumber rt JNull = Fin 0"
| "ToNumber rt (JBool b) = Fin (if b then 1 else 0)"
| "ToNumber rt (JNum n) = n"
| "ToNumber rt (JStr s) = strToNum rt s"
| "ToNumber rt v = objToNum rt v"

text \<open>ToPropertyKey, applied to \<open>k\<close> in \<open>obj[k]\<close>.\<close>

fun ToPropertyKey :: "runtime \<Rightarrow> jsval \<Rightarrow> string" where
  "ToPropertyKey rt JUndefined = ''undefined''"
| "ToPropertyKey rt JNull = ''null''"
| "ToPropertyKey rt (JBool b) = (if b then ''true'' else ''false'')"
| "ToPropertyKey rt (JNum n) = numToStr rt n"
| "ToPropertyKey rt (JStr s) = s"
| "ToPropertyKey rt v = objToStr rt v"

text \<open>
  Errors are values. \<open>TypeError\<close> is what the runtime throws when a property of
  \<open>undefined\<close> is read or a value that is not iterable is spread; \<open>TfError\<close> is the
  Error the tensor library throws when an assertion on its arguments fails;
  \<open>UserError name\<close> is an error object a program throws by a \<open>throw\<close> statement,
  identified by its name. The source files have no \<open>throw\<close> statement.
\<close>

datatype js_error = TypeError | TfError | UserError string

subsection \<open>Arrays\<close>

text \<open>\<open>xs.indexOf(x)\<close>: the first index of \<open>x\<close>, or -1.\<close>

fun indexOf :: "'a list \<Rightarrow> 'a \<Rightarrow> int" where
  "indexOf [] x = - 1"
| "indexOf (y # ys) x =
     (if y = x then 0 else (let i = indexOf ys x in if i < 0 then - 1 else i + 1))"

text \<open>\<open>xs[i]\<close>: \<open>None\<close> is \<open>undefined\<close>, the value of a slot that does not exist.\<close>

definition js_get :: "'a list \<Rightarrow> int \<Rightarrow> 'a option" where
  "js_get xs i = (if 0 \<le> i \<and> i < int (length xs) then Some (xs ! nat i) else None)"

text \<open>\<open>xs[i]\<close> of an array of values.\<close>

definition valAt :: "jsval list \<Rightarrow> int \<Rightarrow> jsval" where
  "valAt xs i = (case js_get xs i of None \<Rightarrow> JUndefined | Some v \<Rightarrow> v)"

text \<open>\<open>xs[i]\<close> of an array of numbers, as an operand of arithmetic (\<open>undefined\<close> is NaN).\<close>

definition numAt :: "jsnum list \<Rightarrow> int \<Rightarrow> jsnum" where
  "numAt xs i = (case js_get xs i of None \<Rightarrow> NaN | Some n \<Rightarrow> n)"

section \<open>The data model of \<open>NeuralNetwork\<close> (src/NeuralNetwork/index.js)\<close>

text \<open>
  The \<open>dtype\<close> of a column is the string \<open>'number'\<close> or \<open>'string'\<close>; the code tests
  for these two and does nothing for any other.
\<close>

datatype dtype = DNumber | DString | DOther

text \<open>
  The descriptor of one column, \<open>meta.inputs[prop]\<close>. The \<open>legend\<close> of a string column
  is an object from each label to its one-hot array, here the list of its own entries in
  the order \<open>Object.entries\<close> gives them; a column without a legend has \<open>None\<close>.
\<close>

record ColumnMeta =
  dtype :: dtype
  legend :: "(string \<times> jsnum list) list option"

text \<open>\<open>this.data.meta\<close>: the columns in the order \<open>Object.entries\<close> gives them.\<close>

record Meta =
  inputs :: "(string \<times> ColumnMeta) list"
  outputs :: "(string \<times> ColumnMeta) list"
  inputUnits :: nat
  outputUnits :: nat

text \<open>
  What \<open>predictInternal\<close> reads of the network: \<open>config.architecture.task\<close>,
  \<open>data.config.dataOptions.inputs\<close> (the column names), \<open>data.meta\<close>, the four
  arrays of bounds recorded in \<open>data.data\<close>, and the fitted model, a parameter:
  \<open>model_predict\<close> is \<open>this.model.predict(xs)\<close> followed by \<open>ys.data()\<close>.
\<close>

record NeuralNetwork =
  task :: string
  dataOptions_inputs :: "string list"
  meta :: Meta
  inputMin :: "jsnum list"
  inputMax :: "jsnum list"
  outputMin :: "jsnum list"
  outputMax :: "jsnum list"
  model_predict :: "jsnum list \<Rightarrow> js_error + jsnum list"

text \<open>
  The argument of \<open>predict\<close>: an array of values, an object (its property lookup, which
  gives \<open>undefined\<close> for a property it lacks), or a value that is neither.
\<close>

datatype sample = SArray "jsval list" | SObject "string \<Rightarrow> jsval" | SPrimitive

text \<open>One entry of a classification result.\<close>

record prediction =
  label :: string
  confidence :: "jsnum option"

text \<open>The values \<open>results.output\<close> takes.\<close>

datatype decoded = ONull | OUndefined | OLabels "prediction list" | OValue jsnum

text \<open>
  The object \<open>predictInternal\<close> resolves to, \<open>{output, tensor}\<close>. The tensor is given by
  its data, the activations; \<open>None\<close> is \<open>null\<close>.
\<close>

record results =
  results_output :: decoded
  results_tensor :: "jsnum list option"

section \<open>\<open>NeuralNetwork.predictInternal\<close>\<close>

text \<open>Step 1: the values of the sample, in the order of the column names.\<close>

fun inputData_of :: "NeuralNetwork \<Rightarrow> sample \<Rightarrow> jsval list" where
  "inputData_of nn (SArray xs) = xs"
| "inputData_of nn (SObject get) = map get (dataOptions_inputs nn)"
| "inputData_of nn SPrimitive = []"

text \<open>\<open>(val - min) / (max - min)\<close>, line 393.\<close>

definition normVal :: "jsnum \<Rightarrow> jsnum \<Rightarrow> jsnum \<Rightarrow> jsnum" where
  "normVal v mn mx = jdiv (jsub v mn) (jsub mx mn)"

text \<open>\<open>(p * (max - min)) + min\<close>, line 439.\<close>

definition denormVal :: "jsnum \<Rightarrow> jsnum \<Rightarrow> jsnum \<Rightarrow> jsnum" where
  "denormVal p mn mx = jadd (jmul p (jsub mx mn)) mn"

text \<open>
  \<open>legend[val]\<close> and its spread into the encoded array. A label the legend has gives its
  one-hot array. Any other key gives \<open>undefined\<close>, or a member that every object inherits
  (\<open>constructor\<close>, \<open>toString\<close>, ...), none of which is iterable: the spread throws a
  TypeError.
\<close>

definition legend_lookup :: "(string \<times> jsnum list) list \<Rightarrow> string \<Rightarrow> js_error + jsnum list" where
  "legend_lookup lg k = (case map_of lg k of None \<Rightarrow> Inl TypeError | Some onehotVal \<Rightarrow> Inr onehotVal)"

text \<open>
  Step 2, the body of the \<open>forEach\<close> over \<open>Object.entries(this.data.meta.inputs)\<close>:
  \<open>encodedInput\<close> after one column.
\<close>

definition encodeColumn ::
  "runtime \<Rightarrow> NeuralNetwork \<Rightarrow> jsval list \<Rightarrow> jsnum list \<Rightarrow> string \<times> ColumnMeta
     \<Rightarrow> js_error + jsnum list" where
  "encodeColumn rt nn inputData encodedInput arr =
     (let prop = fst arr;
          valIndex = indexOf (dataOptions_inputs nn) prop;
          val = valAt inputData valIndex
      in case dtype (snd arr) of
           DNumber \<Rightarrow>
             Inr (encodedInput @
               [normVal (ToNumber rt val) (numAt (inputMin nn) valIndex) (numAt (inputMax nn) valIndex)])
         | DString \<Rightarrow>
             (case legend (snd arr) of
                None \<Rightarrow> Inl TypeError
              | Some lg \<Rightarrow>
                  (case legend_lookup lg (ToPropertyKey rt val) of
                     Inl e \<Rightarrow> Inl e
                   | Inr onehotVal \<Rightarrow> Inr (encodedInput @ onehotVal)))
         | DOther \<Rightarrow> Inr encodedInput)"

text \<open>The \<open>forEach\<close>: the first error ends it.\<close>

fun encodeColumns ::
  "runtime \<Rightarrow> NeuralNetwork \<Rightarrow> jsval list \<Rightarrow> jsnum list \<Rightarrow> (string \<times> ColumnMeta) list
     \<Rightarrow> js_error + jsnum list" where
  "encodeColumns rt nn inputData encodedInput [] = Inr encodedInput"
| "encodeColumns rt nn inputData encodedInput (arr # rest) =
     (case encodeColumn rt nn inputData encodedInput arr of
        Inl e \<Rightarrow> Inl e
      | Inr encodedInput' \<Rightarrow> encodeColumns rt nn inputData encodedInput' rest)"

definition encodeInput :: "runtime \<Rightarrow> NeuralNetwork \<Rightarrow> sample \<Rightarrow> js_error + jsnum list" where
  "encodeInput rt nn s = encodeColumns rt nn (inputData_of nn s) [] (inputs (meta nn))"

text \<open>
  \<open>tf.tensor(values, shape)\<close> of a flat array: the library asserts that the shape holds
  as many values as the array has.
\<close>

definition tf_tensor :: "jsnum list \<Rightarrow> nat list \<Rightarrow> js_error + jsnum list" where
  "tf_tensor vals shape = (if length vals = prod_list shape then Inr vals else Inl TfError)"

text \<open>The comparator of the sort, \<open>(a, b) => b.confidence - a.confidence\<close>.\<close>

definition confidence_num :: "prediction \<Rightarrow> jsnum" where
  "confidence_num p = (case confidence p of None \<Rightarrow> NaN | Some n \<Rightarrow> n)"

definition byConfidence :: "prediction \<Rightarrow> prediction \<Rightarrow> jsnum" where
  "byConfidence a b = jsub (confidence_num b) (confidence_num a)"

text \<open>
  \<open>Array.prototype.sort\<close> with a comparator. The language fixes its result when the
  comparator is consistent: the elements in ascending order of the comparator, equal
  elements in their original order. The embedding is the stable insertion sort driven by
  the comparator, where \<open>a\<close> goes behind \<open>b\<close> when \<open>cmp a b > 0\<close>; on a comparator that
  is not consistent (one that meets NaN) the language leaves the order to the engine.
\<close>

fun insort_by :: "('a \<Rightarrow> 'a \<Rightarrow> jsnum) \<Rightarrow> 'a \<Rightarrow> 'a list \<Rightarrow> 'a list" where
  "insort_by cmp a [] = [a]"
| "insort_by cmp a (b # bs) =
     (if is_positive (cmp a b) then b # insort_by cmp a bs else a # b # bs)"

definition js_sort :: "('a \<Rightarrow> 'a \<Rightarrow> jsnum) \<Rightarrow> 'a list \<Rightarrow> 'a list" where
  "js_sort cmp xs = foldr (insort_by cmp) xs []"

text \<open>\<open>Object.entries(legend).map((legendArr, idx) => ({label, confidence: predictions[idx]}))\<close>\<close>

definition labelPredictions :: "(string \<times> jsnum list) list \<Rightarrow> jsnum list \<Rightarrow> prediction list" where
  "labelPredictions lg predictions =
     map (\<lambda>(idx, legendArr). \<lparr>label = fst legendArr, confidence = js_get predictions (int idx)\<rparr>)
       (enumerate 0 lg)"

text \<open>
  The callback of the classification branch for one output column. \<open>Object.entries\<close> of
  a legend that is \<open>undefined\<close> throws a TypeError.
\<close>

definition classifyColumn :: "jsnum list \<Rightarrow> string \<times> ColumnMeta \<Rightarrow> js_error + prediction list" where
  "classifyColumn predictions arr =
     (case legend (snd arr) of
        None \<Rightarrow> Inl TypeError
      | Some lg \<Rightarrow> Inr (js_sort byConfidence (labelPredictions lg predictions)))"

text \<open>\<open>xs.map(f)\<close> where \<open>f\<close> may throw: the first error ends it.\<close>

fun map_throwing :: "('a \<Rightarrow> js_error + 'b) \<Rightarrow> 'a list \<Rightarrow> js_error + 'b list" where
  "map_throwing f [] = Inr []"
| "map_throwing f (x # xs) =
     (case f x of
        Inl e \<Rightarrow> Inl e
      | Inr y \<Rightarrow> (case map_throwing f xs of Inl e \<Rightarrow> Inl e | Inr ys \<Rightarrow> Inr (y # ys)))"

text \<open>The callback of the regression branch for the output column at \<open>idx\<close>.\<close>

definition regressColumn :: "NeuralNetwork \<Rightarrow> jsnum list \<Rightarrow> nat \<Rightarrow> jsnum" where
  "regressColumn nn predictions idx =
     denormVal (numAt predictions (int idx)) (numAt (outputMin nn) (int idx)) (numAt (outputMax nn) (int idx))"

definition regressColumns :: "NeuralNetwork \<Rightarrow> jsnum list \<Rightarrow> jsnum list" where
  "regressColumns nn predictions =
     map (\<lambda>(idx, item). regressColumn nn predictions idx) (enumerate 0 (outputs (meta nn)))"

text \<open>
  Step 3: the results. \<open>results.output\<close> is the element \<open>[0]\<close> of the mapped columns,
  \<open>undefined\<close> when there is none; for a task that is neither classification nor
  regression both fields stay \<open>null\<close>.
\<close>

definition decodeOutput :: "NeuralNetwork \<Rightarrow> jsnum list \<Rightarrow> js_error + results" where
  "decodeOutput nn predictions =
     (if task nn = ''classification'' then
        (case map_throwing (classifyColumn predictions) (outputs (meta nn)) of
           Inl e \<Rightarrow> Inl e
         | Inr outputData \<Rightarrow>
             Inr \<lparr>results_output = (case outputData of [] \<Rightarrow> OUndefined | first # rest \<Rightarrow> OLabels first),
                  results_tensor = Some predictions\<rparr>)
      else if task nn = ''regression'' then
        Inr \<lparr>results_output =
               (case regressColumns nn predictions of [] \<Rightarrow> OUndefined | val # rest \<Rightarrow> OValue val),
             results_tensor = Some predictions\<rparr>
      else Inr \<lparr>results_output = ONull, results_tensor = None\<rparr>)"

definition predictInternal :: "runtime \<Rightarrow> NeuralNetwork \<Rightarrow> sample \<Rightarrow> js_error + results" where
  "predictInternal rt nn s =
     (case encodeInput rt nn s of
        Inl e \<Rightarrow> Inl e
      | Inr encodedInput \<Rightarrow>
          (case tf_tensor encodedInput [1, inputUnits (meta nn)] of
             Inl e \<Rightarrow> Inl e
           | Inr tensor_xs \<Rightarrow>
               (case model_predict nn tensor_xs of
                  Inl e \<Rightarrow> Inl e
                | Inr predictions \<Rightarrow> decodeOutput nn predictions)))"

section \<open>The second \<open>NeuralNetwork\<close> class of src/NeuralNetwork/index.js\<close>

text \<open>
  The file holds two classes named \<open>NeuralNetwork\<close>; this is the second one, whose
  constructor takes the options alone. Its \<open>modelOptimizer\<close> is the caller's value, or
  an optimizer the tensor library builds.
\<close>

datatype optimizer = OptionValue jsval | Sgd jsval | Adam

record config =
  cfg_task :: jsval
  cfg_debug :: jsval
  cfg_activationHidden :: jsval
  cfg_activationOutput :: jsval
  cfg_inputUnits :: jsval
  cfg_outputUnits :: jsval
  cfg_noVal :: jsval
  cfg_hiddenUnits :: jsval
  cfg_learningRate :: jsval
  cfg_modelMetrics :: jsval
  cfg_modelLoss :: jsval
  cfg_modelOptimizer :: optimizer
  cfg_batchSize :: jsval
  cfg_epochs :: jsval
  cfg_inputKeys :: "string list option"
  cfg_outputKeys :: "string list option"

text \<open>
  \<open>this.config = {...}\<close>, lines 531-547. The options are an object, given by its
  property lookup. The keys \<open>inputKeys\<close> and \<open>outputKeys\<close> are not set here
  (\<open>loadDataInternal\<close> sets them); they start \<open>undefined\<close>, which is \<open>None\<close>.
\<close>

definition config_of_options :: "(string \<Rightarrow> jsval) \<Rightarrow> config" where
  "config_of_options options =
     \<lparr>cfg_task = js_or (options ''task'') (JStr ''regression''),
      cfg_debug = js_or (options ''debug'') (JBool True),
      cfg_activationHidden = js_or (options ''activationHidden'') (JStr ''sigmoid''),
      cfg_activationOutput = js_or (options ''activationOutput'') (JStr ''sigmoid''),
      cfg_inputUnits = js_or (options ''inputs'') (JNum (Fin 2)),
      cfg_outputUnits = js_or (options ''outputs'') (JNum (Fin 1)),
      cfg_noVal = js_or (options ''noVal'') (options ''outputs''),
      cfg_hiddenUnits = js_or (options ''hiddenUnits'') (JNum (Fin 1)),
      cfg_learningRate = js_or (options ''outputs'') (JNum (Fin (1 / 4))),
      cfg_modelMetrics = js_or (options ''modelMetrics'') (JArr [JStr ''accuracy'']),
      cfg_modelLoss = js_or (options ''modelLoss'') (JStr ''meanSquaredError''),
      cfg_modelOptimizer = OptionValue (js_or (options ''modelOptimizer'') JNull),
      cfg_batchSize = js_or (options ''batchSize'') (JNum (Fin 64)),
      cfg_epochs = js_or (options ''epochs'') (JNum (Fin 32)),
      cfg_inputKeys = None,
      cfg_outputKeys = None\<rparr>"

text \<open>What \<open>createModel\<close> writes to \<open>this.config\<close> before it builds the model.\<close>

definition createModel_config :: "config \<Rightarrow> config" where
  "createModel_config c =
     (if cfg_task c = JStr ''regression'' then
        c\<lparr>cfg_modelOptimizer := Sgd (cfg_learningRate c)\<rparr>
      else if cfg_task c = JStr ''classification'' then
        c\<lparr>cfg_hiddenUnits := JNum (Fin 16),
          cfg_activationHidden := JStr ''relu'',
          cfg_activationOutput := JStr ''softmax'',
          cfg_modelLoss := JStr ''categoricalCrossentropy'',
          cfg_modelOptimizer := Adam\<rparr>
      else c)"

text \<open>
  \<open>this.config\<close> when the constructor is done (the tensor library then builds the model
  from it).
\<close>

definition constructor_config :: "(string \<Rightarrow> jsval) \<Rightarrow> config" where
  "constructor_config options = createModel_config (config_of_options options)"

subsection \<open>\<open>normalize\<close>\<close>

text \<open>
  A row of the loaded data, \<open>{xs, ys}\<close>, each an object of numbers given by its property
  lookup (a cell that is missing reads as \<open>undefined\<close>, which a tensor stores as NaN). A tensor is its shape and its values in row-major order.
\<close>

record row =
  row_xs :: "string \<Rightarrow> jsnum"
  row_ys :: "string \<Rightarrow> jsnum"

record tensor =
  shape :: "nat list"
  vals :: "jsnum list"

text \<open>\<open>a < b\<close>\<close>

fun jlt :: "jsnum \<Rightarrow> jsnum \<Rightarrow> bool" where
  "jlt NaN b = False"
| "jlt a NaN = False"
| "jlt (Fin a) (Fin b) = (a < b)"
| "jlt a PInf = (a \<noteq> PInf)"
| "jlt NInf b = (b \<noteq> NInf)"
| "jlt a b = False"

text \<open>
  The values of a tensor are 32-bit floats: IEEE binary32, with 24 significant bits,
  exponents from -126 to 127, subnormal numbers below, and rounding to the nearest float,
  a tie going to the float whose last bit is even. \<open>rne\<close> is that rounding on the
  integers, \<open>f32_exponent\<close> the exponent of the binade of a real number (never below
  -126, where the subnormal numbers begin), and \<open>f32_unbounded\<close> the nearest multiple of
  the unit in the last place of that binade. A result of magnitude \<open>2^128\<close> or more is
  an infinity. As for the numbers above, zero carries no sign.
\<close>

definition rne :: "real \<Rightarrow> int" where
  "rne x =
     (let f = \<lfloor>x\<rfloor>; d = x - of_int f
      in if d < 1 / 2 then f else if 1 / 2 < d then f + 1 else if even f then f else f + 1)"

definition f32_exponent :: "real \<Rightarrow> int" where
  "f32_exponent r = max (- 126) \<lfloor>log 2 \<bar>r\<bar>\<rfloor>"

definition f32_unbounded :: "real \<Rightarrow> real" where
  "f32_unbounded r =
     of_int (rne (r / 2 powi (f32_exponent r - 23))) * 2 powi (f32_exponent r - 23)"

definition f32_round :: "real \<Rightarrow> jsnum" where
  "f32_round r =
     (if 2 ^ 128 \<le> f32_unbounded r then PInf
      else if f32_unbounded r \<le> - (2 ^ 128) then NInf
      else Fin (f32_unbounded r))"

text \<open>A number as a tensor stores it.\<close>

fun to_float32 :: "jsnum \<Rightarrow> jsnum" where
  "to_float32 (Fin r) = f32_round r"
| "to_float32 n = n"

text \<open>
  \<open>a.sub(b)\<close> and \<open>a.div(b)\<close> on one value of \<open>a\<close> and the scalar \<open>b\<close>, both 32-bit
  floats: the difference and the quotient, rounded to a 32-bit float. (The CPU backend
  computes them as doubles and stores them in a \<open>Float32Array\<close>, which for a single
  operation on 32-bit floats is the same value.)
\<close>

definition f32_sub :: "jsnum \<Rightarrow> jsnum \<Rightarrow> jsnum" where
  "f32_sub a b = to_float32 (jsub a b)"

definition f32_div :: "jsnum \<Rightarrow> jsnum \<Rightarrow> jsnum" where
  "f32_div a b = to_float32 (jdiv a b)"

text \<open>
  \<open>t.max()\<close> and \<open>t.min()\<close> over all the values of a tensor, as the CPU backend of
  version 1 of the tensor library computes them: the result starts as the first value
  and is replaced by each \<open>value > max\<close> (for the minimum, \<open>value < min\<close>). A NaN
  that is not the first value is passed over; the first value of an empty tensor is
  \<open>undefined\<close>, stored as NaN.
\<close>

definition tensor_max :: "jsnum list \<Rightarrow> jsnum" where
  "tensor_max vs =
     (case vs of
        [] \<Rightarrow> NaN
      | v # rest \<Rightarrow> fold (\<lambda>value mx. if jlt mx value then value else mx) vs v)"

definition tensor_min :: "jsnum list \<Rightarrow> jsnum" where
  "tensor_min vs =
     (case vs of
        [] \<Rightarrow> NaN
      | v # rest \<Rightarrow> fold (\<lambda>value mn. if jlt value mn then value else mn) vs v)"

text \<open>What \<open>normalize\<close> returns.\<close>

record normalized =
  norm_inputs :: tensor
  norm_targets :: tensor
  norm_inputMax :: jsnum
  norm_inputMin :: jsnum
  norm_targetMax :: jsnum
  norm_targetMin :: jsnum

text \<open>
  Two parts of \<open>normalize\<close> are left to the tensor library, as parameters. One is
  \<open>t.flatten().reshape([rows, units])\<close> of the values of \<open>t\<close>. The other is the whole
  outcome for a classification, where the targets are class indices that \<open>tf.oneHot\<close>
  turns into a tensor of integers, whose arithmetic is not embedded: a function of the
  input columns, the targets, \<open>noVal\<close>, the number of rows and \<open>inputUnits\<close>.
\<close>

record tf_ops =
  tf_reshape :: "jsnum list \<Rightarrow> nat \<Rightarrow> jsval \<Rightarrow> js_error + tensor"
  tf_classification ::
    "jsnum list list \<Rightarrow> jsnum list \<Rightarrow> jsval \<Rightarrow> nat \<Rightarrow> jsval \<Rightarrow> js_error + normalized"

text \<open>\<open>outputKeys[0]\<close> as a property key.\<close>

definition outputLabel_of :: "string list \<Rightarrow> string" where
  "outputLabel_of outputKeys = (case outputKeys of [] \<Rightarrow> ''undefined'' | k # ks \<Rightarrow> k)"

text \<open>
  The body of \<open>normalize(data)\<close>, lines 694-735, for the keys \<open>outputKeys\<close> and
  \<open>inputKeys\<close> of the configuration. \<open>tf.tensor\<close> stores the numbers as 32-bit floats.
  \<open>inputTensor.max(1)\<close> reduces along the second axis, which a tensor built from an
  empty list of input columns does not have.
\<close>

definition normalize_with ::
  "tf_ops \<Rightarrow> config \<Rightarrow> string list \<Rightarrow> string list \<Rightarrow> row list \<Rightarrow> js_error + normalized" where
  "normalize_with tf c outputKeys inputKeys data =
     (let outputLabel = outputLabel_of outputKeys;
          inputLabels = inputKeys;
          inputs = map (\<lambda>header. map (\<lambda>d. row_xs d header) data) inputLabels;
          targets = map (\<lambda>d. row_ys d outputLabel) data
      in if cfg_task c = JStr ''classification'' then
           tf_classification tf inputs targets (cfg_noVal c) (length data) (cfg_inputUnits c)
         else
           (let inputTensor = map to_float32 (concat inputs);
                outputTensor = map to_float32 targets;
                inputMax = tensor_max inputTensor;
                inputMin = tensor_min inputTensor;
                targetMax = tensor_max outputTensor;
                targetMin = tensor_min outputTensor
            in case tf_reshape tf
                      (map (\<lambda>x. f32_div (f32_sub x targetMin) (f32_sub targetMax inputMin)) inputTensor)
                      (length data) (cfg_inputUnits c) of
                 Inl e \<Rightarrow> Inl e
               | Inr normalizedInputs \<Rightarrow>
                   (let normalizedOutputs =
                          \<lparr>shape = [length targets],
                           vals = map (\<lambda>x. f32_div (f32_sub x targetMin) (f32_sub targetMax targetMin))
                                    outputTensor\<rparr>
                    in if inputLabels = [] then Inl TfError
                       else Inr \<lparr>norm_inputs = normalizedInputs,
                                 norm_targets = normalizedOutputs,
                                 norm_inputMax = inputMax,
                                 norm_inputMin = inputMin,
                                 norm_targetMax = targetMax,
                                 norm_targetMin = targetMin\<rparr>)))"

text \<open>
  \<open>normalize(data)\<close>: reading \<open>outputKeys[0]\<close> or mapping over \<open>inputKeys\<close> while they
  are \<open>undefined\<close> throws a TypeError.
\<close>

definition normalize :: "tf_ops \<Rightarrow> config \<Rightarrow> row list \<Rightarrow> js_error + normalized" where
  "normalize tf c data =
     (case cfg_outputKeys c of
        None \<Rightarrow> Inl TypeError
      | Some outputKeys \<Rightarrow>
          (case cfg_inputKeys c of
             None \<Rightarrow> Inl TypeError
           | Some inputKeys \<Rightarrow> normalize_with tf c outputKeys inputKeys data))"

section \<open>\<open>DiyNeuralNetwork\<close> (the file with \<open>loadDataInternal\<close>, \<open>summarizeData\<close>, \<open>warmUp\<close>)\<close>

text \<open>\<open>s.endsWith(suffix)\<close> and \<open>s.includes(part)\<close>.\<close>

fun startsWith :: "string \<Rightarrow> string \<Rightarrow> bool" where
  "startsWith s [] = True"
| "startsWith [] (p # ps) = False"
| "startsWith (c # cs) (p # ps) = (c = p \<and> startsWith cs ps)"

definition endsWith :: "string \<Rightarrow> string \<Rightarrow> bool" where
  "endsWith s suffix = startsWith (rev s) (rev suffix)"

fun includes_str :: "string \<Rightarrow> string \<Rightarrow> bool" where
  "includes_str [] part = (part = [])"
| "includes_str (c # cs) part = (startsWith (c # cs) part \<or> includes_str cs part)"

text \<open>
  \<open>this.neuralNetworkData.meta\<close>: the descriptors of the input and of the output columns
  (of a type the class does not look into) and the two widths.
\<close>

record 'cols DataMeta =
  meta_inputs :: 'cols
  meta_outputs :: 'cols
  meta_inputUnits :: jsval
  meta_outputUnits :: jsval

text \<open>
  Modelled from the spec: the class \<open>NeuralNetworkData\<close>, whose file is not among the
  sources. Each method is a function of its arguments that returns a value or throws: the
  data loader "returns the ordered raw dataset or fails", schema inference has "none"
  of side effects "beyond producing the descriptor; pure function over the raw dataset".
\<close>

record ('raw, 'cols, 'enc) NeuralNetworkData =
  loadCSV :: "string \<Rightarrow> jsval \<Rightarrow> jsval \<Rightarrow> js_error + 'raw"
  loadJSON :: "string \<Rightarrow> jsval \<Rightarrow> jsval \<Rightarrow> js_error + 'raw"
  loadBlob :: "string \<Rightarrow> jsval \<Rightarrow> jsval \<Rightarrow> js_error + 'raw"
  createMetaDataFromData :: "'raw \<Rightarrow> js_error + 'cols DataMeta"
  getRawStats :: "'raw \<Rightarrow> 'cols \<Rightarrow> string \<Rightarrow> js_error + 'cols"
  applyOneHotEncodingsToDataRaw :: "'raw \<Rightarrow> 'cols DataMeta \<Rightarrow> js_error + 'enc"

text \<open>
  The state the methods read and write: \<open>this.neuralNetworkData.data.raw\<close>,
  \<open>this.neuralNetworkData.meta\<close> (\<open>None\<close> while it is \<open>undefined\<close>),
  \<open>this.data.training\<close>, and the lines written by \<open>console.log\<close>.
\<close>

record ('raw, 'cols, 'enc) DiyNeuralNetwork =
  raw :: 'raw
  stored_meta :: "'cols DataMeta option"
  training :: 'enc
  console :: "string list"

record load_options =
  dataUrl :: string
  opt_inputs :: jsval
  opt_outputs :: jsval

text \<open>\<open>createMetaDataFromData(_dataRaw = null)\<close>: the meta and the new state.\<close>

definition diy_createMetaDataFromData ::
  "('raw, 'cols, 'enc) NeuralNetworkData \<Rightarrow> 'raw option \<Rightarrow> ('raw, 'cols, 'enc) DiyNeuralNetwork
     \<Rightarrow> js_error + 'cols DataMeta \<times> ('raw, 'cols, 'enc) DiyNeuralNetwork" where
  "diy_createMetaDataFromData nnd dataRaw_arg st =
     (let dataRaw = (case dataRaw_arg of None \<Rightarrow> raw st | Some d \<Rightarrow> d)
      in case createMetaDataFromData nnd dataRaw of
           Inl e \<Rightarrow> Inl e
         | Inr m \<Rightarrow> Inr (m, st\<lparr>stored_meta := Some m\<rparr>))"

text \<open>
  \<open>summarizeData(_dataRaw = null, _meta = null)\<close>. Reading \<open>meta.inputs\<close> of a meta
  that is \<open>undefined\<close> throws a TypeError, and so does writing
  \<open>this.neuralNetworkData.meta.inputs\<close>.
\<close>

definition summarizeData ::
  "('raw, 'cols, 'enc) NeuralNetworkData \<Rightarrow> 'raw option \<Rightarrow> 'cols DataMeta option
     \<Rightarrow> ('raw, 'cols, 'enc) DiyNeuralNetwork
     \<Rightarrow> js_error + 'cols DataMeta \<times> ('raw, 'cols, 'enc) DiyNeuralNetwork" where
  "summarizeData nnd dataRaw_arg meta_arg st =
     (let dataRaw = (case dataRaw_arg of None \<Rightarrow> raw st | Some d \<Rightarrow> d);
          meta = (case meta_arg of None \<Rightarrow> stored_meta st | Some m \<Rightarrow> Some m)
      in case meta of
           None \<Rightarrow> Inl TypeError
         | Some m \<Rightarrow>
             (case getRawStats nnd dataRaw (meta_inputs m) ''xs'' of
                Inl e \<Rightarrow> Inl e
              | Inr inputMeta \<Rightarrow>
                  (case getRawStats nnd dataRaw (meta_outputs m) ''ys'' of
                     Inl e \<Rightarrow> Inl e
                   | Inr outputMeta \<Rightarrow>
                       (case stored_meta st of
                          None \<Rightarrow> Inl TypeError
                        | Some sm \<Rightarrow>
                            (let sm' = sm\<lparr>meta_inputs := inputMeta, meta_outputs := outputMeta\<rparr>
                             in Inr (sm', st\<lparr>stored_meta := Some sm'\<rparr>))))))"

text \<open>
  \<open>warmUp(_dataRaw = null, _meta = null)\<close>. Without a meta argument the local \<open>meta\<close>
  is the stored object itself, which \<open>summarizeData\<close> has updated in place by the time
  the rows are encoded; a meta passed in is taken to be an object of its own.
\<close>

definition warmUp ::
  "('raw, 'cols, 'enc) NeuralNetworkData \<Rightarrow> 'raw option \<Rightarrow> 'cols DataMeta option
     \<Rightarrow> ('raw, 'cols, 'enc) DiyNeuralNetwork
     \<Rightarrow> js_error + ('cols DataMeta \<times> 'enc) \<times> ('raw, 'cols, 'enc) DiyNeuralNetwork" where
  "warmUp nnd dataRaw_arg meta_arg st =
     (let dataRaw = (case dataRaw_arg of None \<Rightarrow> raw st | Some d \<Rightarrow> d);
          meta = (case meta_arg of None \<Rightarrow> stored_meta st | Some m \<Rightarrow> Some m)
      in case summarizeData nnd (Some dataRaw) meta st of
           Inl e \<Rightarrow> Inl e
         | Inr (updatedMeta, st') \<Rightarrow>
             (case applyOneHotEncodingsToDataRaw nnd dataRaw
                     (case meta_arg of None \<Rightarrow> updatedMeta | Some m \<Rightarrow> m) of
                Inl e \<Rightarrow> Inl e
              | Inr encodedData \<Rightarrow>
                  Inr ((updatedMeta, encodedData), st'\<lparr>training := encodedData\<rparr>)))"

text \<open>The branch of \<open>loadDataInternal\<close> on the locator, lines 67-75.\<close>

definition loadByFormat ::
  "('raw, 'cols, 'enc) NeuralNetworkData \<Rightarrow> load_options \<Rightarrow> ('raw, 'cols, 'enc) DiyNeuralNetwork
     \<Rightarrow> js_error + ('raw, 'cols, 'enc) DiyNeuralNetwork" where
  "loadByFormat nnd options st =
     (if endsWith (dataUrl options) ''.csv'' then
        (case loadCSV nnd (dataUrl options) (opt_inputs options) (opt_outputs options) of
           Inl e \<Rightarrow> Inl e | Inr r \<Rightarrow> Inr (st\<lparr>raw := r\<rparr>))
      else if endsWith (dataUrl options) ''.json'' then
        (case loadJSON nnd (dataUrl options) (opt_inputs options) (opt_outputs options) of
           Inl e \<Rightarrow> Inl e | Inr r \<Rightarrow> Inr (st\<lparr>raw := r\<rparr>))
      else if includes_str (dataUrl options) ''blob'' then
        (case loadBlob nnd (dataUrl options) (opt_inputs options) (opt_outputs options) of
           Inl e \<Rightarrow> Inl e | Inr r \<Rightarrow> Inr (st\<lparr>raw := r\<rparr>))
      else
        Inr (st\<lparr>console := console st @ [''Not a valid data format. Must be csv or json'']\<rparr>))"

text \<open>
  The rest of \<open>loadDataInternal\<close>, lines 77-80: \<open>this.createMetaDataFromData()\<close> and
  \<open>this.warmUp()\<close>, both without arguments.
\<close>

definition prepareData ::
  "('raw, 'cols, 'enc) NeuralNetworkData \<Rightarrow> ('raw, 'cols, 'enc) DiyNeuralNetwork
     \<Rightarrow> js_error + ('raw, 'cols, 'enc) DiyNeuralNetwork" where
  "prepareData nnd st =
     (case diy_createMetaDataFromData nnd None st of
        Inl e \<Rightarrow> Inl e
      | Inr (m, st2) \<Rightarrow>
          (case warmUp nnd None None st2 of
             Inl e \<Rightarrow> Inl e
           | Inr (w, st3) \<Rightarrow> Inr st3))"

text \<open>\<open>loadDataInternal(options)\<close>: the state when its promise resolves, or the error.\<close>

definition loadDataInternal ::
  "('raw, 'cols, 'enc) NeuralNetworkData \<Rightarrow> load_options \<Rightarrow> ('raw, 'cols, 'enc) DiyNeuralNetwork
     \<Rightarrow> js_error + ('raw, 'cols, 'enc) DiyNeuralNetwork" where
  "loadDataInternal nnd options st =
     (case loadByFormat nnd options st of
        Inl e \<Rightarrow> Inl e
      | Inr st1 \<Rightarrow> prepareData nnd st1)"

text \<open>
  Schema inference followed by the statistics pass on a raw dataset:
  \<open>createMetaDataFromData(dataRaw)\<close>, then \<open>summarizeData(dataRaw)\<close>.
\<close>

definition inferAndSummarize ::
  "('raw, 'cols, 'enc) NeuralNetworkData \<Rightarrow> 'raw \<Rightarrow> ('raw, 'cols, 'enc) DiyNeuralNetwork
     \<Rightarrow> js_error + 'cols DataMeta \<times> ('raw, 'cols, 'enc) DiyNeuralNetwork" where
  "inferAndSummarize nnd dataRaw st =
     (case diy_createMetaDataFromData nnd (Some dataRaw) st of
        Inl e \<Rightarrow> Inl e
      | Inr (m, st1) \<Rightarrow> summarizeData nnd (Some dataRaw) None st1)"

section \<open>The layout of an encoded record\<close>

text \<open>
  Modelled from the spec: the width of a column in an EncodedRecord, which is the layout
  of every row of the training tensor (the code that assembles it is in
  \<open>NeuralNetworkData\<close>, not among the sources): "1 per numeric column, |vocabulary| per
  categorical column", "in a fixed order matching DatasetMeta's column iteration order";
  \<open>inputUnits\<close> is their total.
\<close>

definition columnWidth :: "ColumnMeta \<Rightarrow> nat" where
  "columnWidth cm =
     (case dtype cm of
        DNumber \<Rightarrow> 1
      | DString \<Rightarrow> (case legend cm of None \<Rightarrow> 0 | Some lg \<Rightarrow> length lg)
      | DOther \<Rightarrow> 0)"

definition rowLayout :: "(string \<times> ColumnMeta) list \<Rightarrow> nat list" where
  "rowLayout cols = map (\<lambda>arr. columnWidth (snd arr)) cols"

definition derivedUnits :: "(string \<times> ColumnMeta) list \<Rightarrow> nat" where
  "derivedUnits cols = sum_list (rowLayout cols)"

text \<open>
  Modelled from the spec: a descriptor as schema inference leaves it. The column is
  numeric or categorical, and the one-hot array of each label of a categorical column
  has one slot per label of the vocabulary.
\<close>

definition inferredColumn :: "ColumnMeta \<Rightarrow> bool" where
  "inferredColumn cm =
     (case dtype cm of
        DNumber \<Rightarrow> True
      | DString \<Rightarrow>
          (case legend cm of
             None \<Rightarrow> False
           | Some lg \<Rightarrow> list_all (\<lambda>legendArr. length (snd legendArr) = length lg) lg)
      | DOther \<Rightarrow> False)"

section \<open>The vocabulary index of a label\<close>

text \<open>
  The one-hot array of a label has its 1 at the label's index in the vocabulary; this is
  the array the encoding of an input spreads into the vector (\<open>legend[val]\<close>), and the
  index of the unit of the model that stands for the label. \<open>hotIndex\<close> reads the index
  off the array, \<open>vocabularyIndex\<close> off the legend.
\<close>

fun hotIndex :: "jsnum list \<Rightarrow> nat option" where
  "hotIndex [] = None"
| "hotIndex (x # onehot) = (if x = Fin 1 then Some 0 else map_option Suc (hotIndex onehot))"

definition vocabularyIndex :: "(string \<times> jsnum list) list \<Rightarrow> string \<Rightarrow> nat option" where
  "vocabularyIndex lg l = (case map_of lg l of None \<Rightarrow> None | Some onehot \<Rightarrow> hotIndex onehot)"

section \<open>The order of the sort, as a key\<close>

text \<open>
  The numbers other than NaN are linearly ordered; \<open>rank\<close> embeds them in an ordered
  type and \<open>desc_key\<close> reverses it, so that the sort by \<open>byConfidence\<close> is the sort by
  this key on predictions whose confidence is a number.
\<close>

fun rank :: "jsnum \<Rightarrow> int \<times> real" where
  "rank NInf = (- 1, 0)"
| "rank (Fin r) = (0, r)"
| "rank PInf = (1, 0)"
| "rank NaN = (2, 0)"

definition desc_key :: "prediction \<Rightarrow> int \<times> real" where
  "desc_key p = (- fst (rank (confidence_num p)), - snd (rank (confidence_num p)))"

section \<open>Networks and datasets of the scenarios\<close>

text \<open>
  A runtime for samples whose values are numbers where a number is expected and strings
  where a label is expected: none of its conversions is consulted.
\<close>

definition example_runtime :: runtime where
  "example_runtime =
     \<lparr>strToNum = (\<lambda>s. NaN), numToStr = (\<lambda>n. ''NaN''),
      objToNum = (\<lambda>v. NaN), objToStr = (\<lambda>v. ''[object Object]'')\<rparr>"

text \<open>
  A regression network over a categorical column \<open>color\<close> (vocabulary red, blue) and a
  numeric column \<open>size\<close> (min 3, max 5), with a numeric output \<open>price\<close> (min 100, max
  200); its model answers 0.5.
\<close>

definition shop_network :: NeuralNetwork where
  "shop_network =
     \<lparr>task = ''regression'',
      dataOptions_inputs = [''color'', ''size''],
      meta = \<lparr>inputs =
                 [(''color'', \<lparr>dtype = DString,
                               legend = Some [(''red'', [Fin 1, Fin 0]), (''blue'', [Fin 0, Fin 1])]\<rparr>),
                  (''size'', \<lparr>dtype = DNumber, legend = None\<rparr>)],
               outputs = [(''price'', \<lparr>dtype = DNumber, legend = None\<rparr>)],
               inputUnits = 3,
               outputUnits = 1\<rparr>,
      inputMin = [Fin 0, Fin 3],
      inputMax = [Fin 0, Fin 5],
      outputMin = [Fin 100],
      outputMax = [Fin 200],
      model_predict = (\<lambda>xs. Inr [Fin (1 / 2)])\<rparr>"

definition shop_sample :: "string \<Rightarrow> real \<Rightarrow> sample" where
  "shop_sample c sz =
     SObject (\<lambda>k. if k = ''color'' then JStr c
                   else if k = ''size'' then JNum (Fin sz) else JUndefined)"

text \<open>The constant column of the spec's scenario, \<open>[{x:7},{x:7}]\<close>: min 7, max 7.\<close>

definition constant_network :: NeuralNetwork where
  "constant_network =
     \<lparr>task = ''regression'',
      dataOptions_inputs = [''x''],
      meta = \<lparr>inputs = [(''x'', \<lparr>dtype = DNumber, legend = None\<rparr>)],
               outputs = [(''y'', \<lparr>dtype = DNumber, legend = None\<rparr>)],
               inputUnits = 1,
               outputUnits = 1\<rparr>,
      inputMin = [Fin 7],
      inputMax = [Fin 7],
      outputMin = [Fin 0],
      outputMax = [Fin 1],
      model_predict = (\<lambda>xs. Inr [Fin 0])\<rparr>"

text \<open>
  A classification network with the labels cat, dog, bird; its model answers 0.2, 0.4,
  0.4.
\<close>

definition pets_network :: NeuralNetwork where
  "pets_network =
     \<lparr>task = ''classification'',
      dataOptions_inputs = [''x''],
      meta = \<lparr>inputs = [(''x'', \<lparr>dtype = DNumber, legend = None\<rparr>)],
               outputs =
                 [(''pet'', \<lparr>dtype = DString,
                             legend = Some [(''cat'', [Fin 1, Fin 0, Fin 0]),
                                            (''dog'', [Fin 0, Fin 1, Fin 0]),
                                            (''bird'', [Fin 0, Fin 0, Fin 1])]\<rparr>)],
               inputUnits = 1,
               outputUnits = 3\<rparr>,
      inputMin = [Fin 0],
      inputMax = [Fin 10],
      outputMin = [],
      outputMax = [],
      model_predict = (\<lambda>xs. Inr [Fin (1 / 5), Fin (2 / 5), Fin (2 / 5)])\<rparr>"

text \<open>
  The tensor operations for the datasets below, all of them regressions: the reshape to
  \<open>[rows, units]\<close>, which fails unless the sizes agree; the classification branch is
  not entered.
\<close>

definition example_tf :: tf_ops where
  "example_tf =
     \<lparr>tf_reshape = (\<lambda>vs rows units.
        case units of
          JNum (Fin k) \<Rightarrow>
            if real (length vs) = real rows * k
            then Inr \<lparr>shape = [rows, nat \<lfloor>k\<rfloor>], vals = vs\<rparr> else Inl TfError
        | _ \<Rightarrow> Inl TfError),
      tf_classification = (\<lambda>inputs targets noVal rows units. Inl TfError)\<rparr>"

text \<open>
  The configuration of \<open>new NeuralNetwork({inputs: 1})\<close> after the data were loaded
  with the input key \<open>x\<close> and the output key \<open>y\<close>; its task is the default, regression.
\<close>

definition example_config :: config where
  "example_config =
     (constructor_config (\<lambda>k. if k = ''inputs'' then JNum (Fin 1) else JUndefined))
       \<lparr>cfg_inputKeys := Some [''x''], cfg_outputKeys := Some [''y'']\<rparr>"

definition example_row :: "real \<Rightarrow> real \<Rightarrow> row" where
  "example_row x y =
     \<lparr>row_xs = (\<lambda>k. if k = ''x'' then Fin x else NaN),
      row_ys = (\<lambda>k. if k = ''y'' then Fin y else NaN)\<rparr>"

text \<open>
  A data class whose loaders give one row, whose schema inference names one input and one
  output column, and whose statistics and encoding leave their arguments as they are.
\<close>

definition example_data :: "(jsval list, string list, jsval list) NeuralNetworkData" where
  "example_data =
     \<lparr>loadCSV = (\<lambda>url ins outs. Inr [JNum (Fin 1)]),
      loadJSON = (\<lambda>url ins outs. Inr [JNum (Fin 1)]),
      loadBlob = (\<lambda>url ins outs. Inr [JNum (Fin 1)]),
      createMetaDataFromData = (\<lambda>dataRaw.
        Inr \<lparr>meta_inputs = [''x''], meta_outputs = [''y''],
             meta_inputUnits = JNum (Fin 1), meta_outputUnits = JNum (Fin 1)\<rparr>),
      getRawStats = (\<lambda>dataRaw cols key. Inr cols),
      applyOneHotEncodingsToDataRaw = (\<lambda>dataRaw m. Inr dataRaw)\<rparr>"

text \<open>The state of a \<open>DiyNeuralNetwork\<close> before any data are loaded.\<close>

definition initial_state :: "(jsval list, string list, jsval list) DiyNeuralNetwork" where
  "initial_state = \<lparr>raw = [], stored_meta = None, training = [], console = []\<rparr>"

text \<open>
  A classification network whose labels are the strings 7 and 3, first seen in this
  order: the legend is the object \<open>{'7': [1, 0], '3': [0, 1]}\<close>. \<open>Object.entries\<close> lists
  the keys of an object that are integers first, in ascending order, so the entries of
  the legend begin with 3. Its model answers 0.9 for the first unit (the 7) and 0.1 for
  the second (the 3).
\<close>

definition digits_network :: NeuralNetwork where
  "digits_network =
     \<lparr>task = ''classification'',
      dataOptions_inputs = [''x''],
      meta = \<lparr>inputs = [(''x'', \<lparr>dtype = DNumber, legend = None\<rparr>)],
               outputs =
                 [(''digit'', \<lparr>dtype = DString,
                               legend = Some [(''3'', [Fin 0, Fin 1]), (''7'', [Fin 1, Fin 0])]\<rparr>)],
               inputUnits = 1,
               outputUnits = 2\<rparr>,
      inputMin = [Fin 0],
      inputMax = [Fin 10],
      outputMin = [],
      outputMax = [],
      model_predict = (\<lambda>xs. Inr [Fin (9 / 10), Fin (1 / 10)])\<rparr>"

section \<open>Encoding a sample\<close>

lemma encodeColumn_error:
  "encodeColumn rt nn inputData acc arr = Inl e \<Longrightarrow> e = TypeError"
  by (auto simp: encodeColumn_def legend_lookup_def Let_def
      split: dtype.splits option.splits sum.splits)

lemma encodeColumn_unseen:
  assumes "dtype (snd arr) = DString" and "legend (snd arr) = Some lg"
    and "ToPropertyKey rt (valAt inputData (indexOf (dataOptions_inputs nn) (fst arr)))
           \<notin> fst ` set lg"
  shows "encodeColumn rt nn inputData acc arr = Inl TypeError"
  using assms
  by (simp add: encodeColumn_def legend_lookup_def Let_def map_of_eq_None_iff
      split: option.splits)

lemma encodeColumns_unseen:
  assumes "arr \<in> set cols" and "dtype (snd arr) = DString" and "legend (snd arr) = Some lg"
    and "ToPropertyKey rt (valAt inputData (indexOf (dataOptions_inputs nn) (fst arr)))
           \<notin> fst ` set lg"
  shows "encodeColumns rt nn inputData acc cols = Inl TypeError"
  using assms(1)
proof (induction cols arbitrary: acc)
  case Nil
  then show ?case by simp
next
  case (Cons c cols)
  show ?case
  proof (cases "encodeColumn rt nn inputData acc c")
    case (Inl e)
    then show ?thesis using encodeColumn_error[OF Inl] by simp
  next
    case (Inr acc')
    then have "c \<noteq> arr" using encodeColumn_unseen[OF assms(2-4), of acc] by auto
    with Cons.prems have "arr \<in> set cols" by auto
    then show ?thesis using Inr Cons.IH by simp
  qed
qed

text \<open>
  C1 (as amended). When the sample holds, for a string-typed input column, a value whose
  property key is not a label of the column's legend, the encoding fails, and so does
  \<open>predictInternal\<close>: the lookup \<open>legend[val]\<close> is not iterable and spreading it throws a
  TypeError. No encoded vector is produced, whatever the other columns hold. The error is
  the runtime's TypeError; the code has no error of its own for this case.
\<close>

theorem unseen_label_fails:
  assumes "(prop, cm) \<in> set (inputs (meta nn))"
    and "dtype cm = DString"
    and "legend cm = Some lg"
    and "ToPropertyKey rt (valAt (inputData_of nn s) (indexOf (dataOptions_inputs nn) prop))
           \<notin> fst ` set lg"
  shows "encodeInput rt nn s = Inl TypeError \<and> predictInternal rt nn s = Inl TypeError"
  using encodeColumns_unseen[of "(prop, cm)" "inputs (meta nn)" lg rt "inputData_of nn s" nn "[]"]
    assms
  by (simp add: encodeInput_def predictInternal_def)

theorem unseen_label_fails_witness:
  "encodeInput example_runtime shop_network (shop_sample ''green'' 4) = Inl TypeError
   \<and> predictInternal example_runtime shop_network (shop_sample ''green'' 4) = Inl TypeError"
proof -
  let ?cm = "\<lparr>dtype = DString,
              legend = Some [(''red'', [Fin 1, Fin 0]), (''blue'', [Fin 0, Fin 1])]\<rparr>"
  have h1: "(''color'', ?cm) \<in> set (inputs (meta shop_network))"
    by (simp add: shop_network_def)
  have h2: "dtype ?cm = DString" by simp
  have h3: "legend ?cm = Some [(''red'', [Fin 1, Fin 0]), (''blue'', [Fin 0, Fin 1])]" by simp
  have h4: "ToPropertyKey example_runtime
              (valAt (inputData_of shop_network (shop_sample ''green'' 4))
                 (indexOf (dataOptions_inputs shop_network) ''color''))
            \<notin> fst ` set [(''red'', [Fin 1, Fin 0]), (''blue'', [Fin 0, Fin 1])]"
    by (simp add: shop_network_def shop_sample_def valAt_def js_get_def)
  show ?thesis by (rule unseen_label_fails[OF h1 h2 h3 h4])
qed

text \<open>
  The claim as the spec states it names a \<open>ValueNotInVocabulary\<close> error. The sample
  \<open>{color: "green", size: 4}\<close>, whose colour the vocabulary (red, blue) lacks, is
  rejected with a TypeError instead.
\<close>

theorem unseen_label_error_counterexample:
  "predictInternal example_runtime shop_network (shop_sample ''green'' 4) = Inl TypeError
   \<and> predictInternal example_runtime shop_network (shop_sample ''green'' 4)
       \<noteq> Inl (UserError ''ValueNotInVocabulary'')"
  by (simp add: predictInternal_def encodeInput_def encodeColumn_def legend_lookup_def
      shop_network_def shop_sample_def valAt_def js_get_def)

section \<open>Normalisation of a constant column\<close>

lemma normVal_same:
  "normVal v m m =
     (if is_finite m then (if jlt m v then PInf else if jlt v m then NInf else NaN) else NaN)"
  by (cases m; cases v) (auto simp: normVal_def jsub_def signed_inf_def)

text \<open>
  C2 (as amended). For a number-typed input column whose recorded min equals its recorded
  max, the encoding evaluates \<open>(val - min) / (max - min)\<close> with a zero denominator and no
  guard. For a finite bound, the encoded value is NaN when the sample's value equals it,
  +Infinity when the value is above and -Infinity when it is below; for a bound that is
  not finite it is NaN. It is never a finite number.
\<close>

theorem constant_column_unguarded:
  assumes "dtype (snd arr) = DNumber"
    and "js_get (inputMin nn) (indexOf (dataOptions_inputs nn) (fst arr)) = Some m"
    and "js_get (inputMax nn) (indexOf (dataOptions_inputs nn) (fst arr)) = Some m"
    and "v = ToNumber rt (valAt inputData (indexOf (dataOptions_inputs nn) (fst arr)))"
  shows "\<exists>r. encodeColumn rt nn inputData acc arr = Inr (acc @ [r])
             \<and> r = (if is_finite m
                    then (if jlt m v then PInf else if jlt v m then NInf else NaN)
                    else NaN)
             \<and> \<not> is_finite r"
  using assms by (simp add: encodeColumn_def Let_def numAt_def normVal_same)

theorem constant_column_unguarded_witness:
  "\<exists>r. encodeColumn example_runtime constant_network [JNum (Fin 9)] [] 
          (''x'', \<lparr>dtype = DNumber, legend = None\<rparr>) = Inr ([] @ [r])
       \<and> r = PInf \<and> \<not> is_finite r"
proof -
  let ?arr = "(''x'', \<lparr>dtype = DNumber, legend = None\<rparr>)"
  have h1: "dtype (snd ?arr) = DNumber" by simp
  have h2: "js_get (inputMin constant_network)
              (indexOf (dataOptions_inputs constant_network) (fst ?arr)) = Some (Fin 7)"
    by (simp add: constant_network_def js_get_def)
  have h3: "js_get (inputMax constant_network)
              (indexOf (dataOptions_inputs constant_network) (fst ?arr)) = Some (Fin 7)"
    by (simp add: constant_network_def js_get_def)
  have h4: "Fin 9 = ToNumber example_runtime
              (valAt [JNum (Fin 9)] (indexOf (dataOptions_inputs constant_network) (fst ?arr)))"
    by (simp add: constant_network_def valAt_def js_get_def)
  show ?thesis
    using constant_column_unguarded[OF h1 h2 h3 h4, of "[]"] by simp
qed

text \<open>
  The spec's scenario: the column \<open>x\<close> is 7 in every row, and the sample \<open>[7]\<close> is
  encoded as NaN, not as 0.
\<close>

theorem constant_column_counterexample:
  "encodeInput example_runtime constant_network (SArray [JNum (Fin 7)]) = Inr [NaN]"
  by (simp add: encodeInput_def encodeColumn_def constant_network_def valAt_def numAt_def
      js_get_def normVal_def jsub_def signed_inf_def)

section \<open>Decoding the output\<close>

lemma predictInternal_Inr:
  assumes "predictInternal rt nn s = Inr res"
  shows "\<exists>enc predictions. encodeInput rt nn s = Inr enc \<and> length enc = inputUnits (meta nn)
           \<and> model_predict nn enc = Inr predictions
           \<and> decodeOutput nn predictions = Inr res"
  using assms
  by (auto simp: predictInternal_def tf_tensor_def split: sum.splits if_splits)

lemma predictInternal_decoded:
  assumes "predictInternal rt nn s = Inr res" and "results_tensor res = Some predictions"
  shows "decodeOutput nn predictions = Inr res"
proof -
  from predictInternal_Inr[OF assms(1)] obtain ps where ps: "decodeOutput nn ps = Inr res"
    by blast
  then have "results_tensor res = Some ps \<or> results_tensor res = None"
    by (auto simp: decodeOutput_def split: if_splits sum.splits)
  with assms(2) ps show ?thesis by simp
qed

lemma regressColumns_map:
  "regressColumns nn predictions =
     map (regressColumn nn predictions) [0..<length (outputs (meta nn))]"
  by (rule nth_equalityI) (simp_all add: regressColumns_def nth_enumerate_eq)

lemma decode_regression:
  assumes "task nn = ''regression''" and "outputs (meta nn) \<noteq> []"
  shows "decodeOutput nn predictions =
           Inr \<lparr>results_output = OValue (regressColumn nn predictions 0),
                results_tensor = Some predictions\<rparr>"
proof -
  from assms(2) obtain c cs where "outputs (meta nn) = c # cs"
    by (cases "outputs (meta nn)") auto
  then show ?thesis using assms(1)
    by (simp add: decodeOutput_def regressColumns_def enumerate_simps)
qed

text \<open>
  C3. In a regression prediction, the value decoded for the output column at \<open>idx\<close> is
  \<open>p * (max - min) + min\<close>, with \<open>p\<close> the activation at \<open>idx\<close> and \<open>min\<close>, \<open>max\<close>
  the bounds recorded at \<open>idx\<close>: the inverse of the min-max normalisation, column by
  column. On finite numbers the expression is that number. The result of the prediction
  is the value of the first output column (the element \<open>[0]\<close> of the decoded columns).
\<close>

theorem regression_decoding:
  assumes "predictInternal rt nn s = Inr res"
    and "task nn = ''regression''"
    and "outputs (meta nn) \<noteq> []"
  shows "\<exists>predictions. results_tensor res = Some predictions
           \<and> regressColumns nn predictions =
               map (\<lambda>idx. jadd (jmul (numAt predictions (int idx))
                                   (jsub (numAt (outputMax nn) (int idx)) (numAt (outputMin nn) (int idx))))
                              (numAt (outputMin nn) (int idx)))
                 [0..<length (outputs (meta nn))]
           \<and> results_output res =
               OValue (jadd (jmul (numAt predictions 0)
                               (jsub (numAt (outputMax nn) 0) (numAt (outputMin nn) 0)))
                          (numAt (outputMin nn) 0))
           \<and> jadd (jmul (Fin p) (jsub (Fin mx) (Fin mn))) (Fin mn) = Fin (p * (mx - mn) + mn)"
proof -
  from predictInternal_Inr[OF assms(1)] obtain predictions
    where "decodeOutput nn predictions = Inr res" by blast
  then have res: "res = \<lparr>results_output = OValue (regressColumn nn predictions 0),
                         results_tensor = Some predictions\<rparr>"
    using decode_regression[OF assms(2,3), of predictions] by simp
  have "results_tensor res = Some predictions" by (simp add: res)
  moreover have "results_output res = OValue (regressColumn nn predictions 0)" by (simp add: res)
  ultimately show ?thesis
    by (simp add: regressColumns_map regressColumn_def denormVal_def jsub_def)
qed

theorem regression_decoding_witness:
  "predictInternal example_runtime shop_network (shop_sample ''red'' 4)
     = Inr \<lparr>results_output = OValue (Fin 150), results_tensor = Some [Fin (1 / 2)]\<rparr>
   \<and> regressColumns shop_network [Fin (1 / 2)] = [Fin 150]
   \<and> jadd (jmul (Fin (1 / 2)) (jsub (Fin 200) (Fin 100))) (Fin 100) = Fin 150"
proof -
  let ?res = "\<lparr>results_output = OValue (Fin 150), results_tensor = Some [Fin (1 / 2)]\<rparr>"
  have h1: "predictInternal example_runtime shop_network (shop_sample ''red'' 4) = Inr ?res"
    by (simp add: predictInternal_def encodeInput_def encodeColumn_def legend_lookup_def
        shop_network_def shop_sample_def valAt_def numAt_def js_get_def normVal_def
        denormVal_def jsub_def tf_tensor_def decodeOutput_def regressColumns_def
        regressColumn_def enumerate_simps)
  have h2: "task shop_network = ''regression''" by (simp add: shop_network_def)
  have h3: "outputs (meta shop_network) \<noteq> []" by (simp add: shop_network_def)
  have "outputMax shop_network = [Fin 200]" "outputMin shop_network = [Fin 100]"
    "length (outputs (meta shop_network)) = 1"
    by (simp_all add: shop_network_def)
  then show ?thesis
    using h1 regression_decoding[OF h1 h2 h3, of "1 / 2" 200 100]
    by (auto simp: numAt_def js_get_def jsub_def)
qed

section \<open>Decoding inverts the normalisation\<close>

lemma denorm_norm:
  assumes "mn < mx"
  shows "denormVal (normVal (Fin v) (Fin mn) (Fin mx)) (Fin mn) (Fin mx) = Fin v"
  using assms by (simp add: denormVal_def normVal_def jsub_def field_simps)

text \<open>
  C4. For bounds \<open>min < max\<close> and every finite value \<open>v\<close>, decoding the encoding of
  \<open>v\<close> gives \<open>v\<close> back: \<open>((v - min) / (max - min)) * (max - min) + min = v\<close>. So when
  the activation of an output column is the normalised value of \<open>v\<close> under the bounds
  recorded for that column, the regression branch decodes it to \<open>v\<close>. The arithmetic of
  the embedding is exact, so the value is recovered exactly; the rounding of the
  program's doubles is what the claim's tolerance allows for.
\<close>

theorem decode_inverts_encode:
  assumes "mn < mx"
    and "js_get (outputMin nn) (int idx) = Some (Fin mn)"
    and "js_get (outputMax nn) (int idx) = Some (Fin mx)"
    and "js_get predictions (int idx) = Some (normVal (Fin v) (Fin mn) (Fin mx))"
  shows "denormVal (normVal (Fin v) (Fin mn) (Fin mx)) (Fin mn) (Fin mx) = Fin v
         \<and> regressColumn nn predictions idx = Fin v"
  using assms(2-4) denorm_norm[OF assms(1), of v]
  by (simp add: regressColumn_def numAt_def)

theorem decode_inverts_encode_witness:
  "denormVal (normVal (Fin 125) (Fin 100) (Fin 200)) (Fin 100) (Fin 200) = Fin 125
   \<and> regressColumn shop_network [Fin (1 / 4)] 0 = Fin 125"
proof -
  have h1: "(100::real) < 200" by simp
  have h2: "js_get (outputMin shop_network) (int 0) = Some (Fin 100)"
    by (simp add: shop_network_def js_get_def)
  have h3: "js_get (outputMax shop_network) (int 0) = Some (Fin 200)"
    by (simp add: shop_network_def js_get_def)
  have h4: "js_get [Fin (1 / 4)] (int 0) = Some (normVal (Fin 125) (Fin 100) (Fin 200))"
    by (simp add: js_get_def normVal_def jsub_def)
  show ?thesis by (rule decode_inverts_encode[OF h1 h2 h3 h4])
qed

section \<open>Ranking the labels of a classification\<close>

lemma is_positive_jsub:
  "a \<noteq> NaN \<Longrightarrow> b \<noteq> NaN \<Longrightarrow> is_positive (jsub b a) \<longleftrightarrow> rank a < rank b"
  by (cases a; cases b) (auto simp: jsub_def)

lemma jlt_rank: "a \<noteq> NaN \<Longrightarrow> b \<noteq> NaN \<Longrightarrow> jlt a b \<longleftrightarrow> rank a < rank b"
  by (cases a; cases b) auto

lemma desc_key_le:
  "desc_key a \<le> desc_key b \<longleftrightarrow> rank (confidence_num b) \<le> rank (confidence_num a)"
  by (cases "rank (confidence_num a)"; cases "rank (confidence_num b)")
    (auto simp: desc_key_def)

lemma insort_by_key:
  assumes "confidence_num a \<noteq> NaN" and "\<forall>b\<in>set bs. confidence_num b \<noteq> NaN"
  shows "insort_by byConfidence a bs = insort_key desc_key a bs"
  using assms(2)
  by (induction bs)
    (auto simp: byConfidence_def is_positive_jsub[OF assms(1)] desc_key_le not_less)

lemma js_sort_key:
  assumes "\<forall>b\<in>set bs. confidence_num b \<noteq> NaN"
  shows "js_sort byConfidence bs = sort_key desc_key bs"
  using assms
proof (induction bs)
  case Nil
  then show ?case by (simp add: js_sort_def)
next
  case (Cons a bs)
  then have "js_sort byConfidence bs = sort_key desc_key bs" by simp
  moreover have "\<forall>b\<in>set (sort_key desc_key bs). confidence_num b \<noteq> NaN"
    using Cons.prems by simp
  ultimately show ?case using Cons.prems
    by (simp add: js_sort_def insort_by_key)
qed

lemma js_sort_mset:
  assumes "\<forall>b\<in>set bs. confidence_num b \<noteq> NaN"
  shows "mset (js_sort byConfidence bs) = mset bs"
  by (simp add: js_sort_key[OF assms])

lemma js_sort_descending:
  assumes "\<forall>b\<in>set bs. confidence_num b \<noteq> NaN"
  shows "sorted_wrt (\<lambda>a b. \<not> jlt (confidence_num a) (confidence_num b)) (js_sort byConfidence bs)"
proof -
  have "sorted (map desc_key (sort_key desc_key bs))" by simp
  then have "sorted_wrt (\<lambda>a b. desc_key a \<le> desc_key b) (sort_key desc_key bs)"
    by (simp add: sorted_map)
  then have "sorted_wrt (\<lambda>a b. \<not> jlt (confidence_num a) (confidence_num b)) (sort_key desc_key bs)"
  proof (rule sorted_wrt_mono_rel[rotated])
    fix a b
    assume "a \<in> set (sort_key desc_key bs)" "b \<in> set (sort_key desc_key bs)"
      "desc_key a \<le> desc_key b"
    then show "\<not> jlt (confidence_num a) (confidence_num b)"
      using assms by (simp add: jlt_rank desc_key_le not_less)
  qed
  then show ?thesis by (simp add: js_sort_key[OF assms])
qed

lemma js_sort_stable:
  assumes "\<forall>b\<in>set bs. confidence_num b \<noteq> NaN"
  shows "filter (\<lambda>p. confidence_num p = n) (js_sort byConfidence bs)
           = filter (\<lambda>p. confidence_num p = n) bs"
proof (cases "n = NaN")
  case True
  then have "filter (\<lambda>p. confidence_num p = n) ps = []"
    if "\<forall>b\<in>set ps. confidence_num b \<noteq> NaN" for ps
    using that by (simp add: filter_empty_conv)
  then show ?thesis using assms by (simp add: js_sort_key[OF assms])
next
  case False
  have conf_key: "(confidence_num b = n) = (desc_key b = (- fst (rank n), - snd (rank n)))"
    if "confidence_num b \<noteq> NaN" for b
    using that False by (cases "confidence_num b"; cases n) (auto simp: desc_key_def)
  have "filter (\<lambda>p. confidence_num p = n) ps
          = filter (\<lambda>p. desc_key p = (- fst (rank n), - snd (rank n))) ps"
    if "\<forall>b\<in>set ps. confidence_num b \<noteq> NaN" for ps
    using that by (intro filter_cong) (auto simp: conf_key)
  then show ?thesis using assms by (simp add: js_sort_key[OF assms] sort_key_stable)
qed

lemma labelPredictions_map:
  assumes "length lg \<le> length predictions"
  shows "labelPredictions lg predictions =
           map (\<lambda>i. \<lparr>label = fst (lg ! i), confidence = Some (predictions ! i)\<rparr>) [0..<length lg]"
  using assms
  by (intro nth_equalityI) (simp_all add: labelPredictions_def nth_enumerate_eq js_get_def)

lemma decode_classification:
  assumes "task nn = ''classification''"
    and "outputs (meta nn) = (prop, cm) # rest"
    and "legend cm = Some lg"
    and "decodeOutput nn predictions = Inr res"
  shows "results_output res = OLabels (js_sort byConfidence (labelPredictions lg predictions))"
  using assms
  by (auto simp: decodeOutput_def classifyColumn_def split: sum.splits list.splits)

text \<open>
  What the classification branch does. For activations that are numbers, one at least
  per label, the result pairs the label at each position of the legend's entries with the
  activation at that position, and lists the pairs in descending order of confidence,
  pairs of equal confidence in the order of the entries: the result has exactly these
  pairs, no pair stands before one of greater confidence, and for every confidence the
  pairs that have it keep their order. The output column is the first of \<open>meta.outputs\<close>.
\<close>

lemma classification_ranking:
  assumes "predictInternal rt nn s = Inr res"
    and "task nn = ''classification''"
    and "outputs (meta nn) = (prop, cm) # rest"
    and "legend cm = Some lg"
    and "results_tensor res = Some predictions"
    and "length lg \<le> length predictions"
    and "NaN \<notin> set predictions"
    and "pairs = map (\<lambda>i. \<lparr>label = fst (lg ! i), confidence = Some (predictions ! i)\<rparr>)
                   [0..<length lg]"
  shows "\<exists>ps. results_output res = OLabels ps
           \<and> mset ps = mset pairs
           \<and> sorted_wrt (\<lambda>a b. \<not> jlt (confidence_num a) (confidence_num b)) ps
           \<and> (\<forall>n. filter (\<lambda>p. confidence_num p = n) ps = filter (\<lambda>p. confidence_num p = n) pairs)"
proof -
  have pairs: "labelPredictions lg predictions = pairs"
    using labelPredictions_map[OF assms(6)] assms(8) by simp
  have "predictions ! i \<noteq> NaN" if "i < length lg" for i
    using that assms(6,7) by (metis nth_mem order_less_le_trans)
  then have numbers: "\<forall>b\<in>set pairs. confidence_num b \<noteq> NaN"
    by (auto simp: assms(8) confidence_num_def)
  have "results_output res = OLabels (js_sort byConfidence pairs)"
    using decode_classification[OF assms(2-4) predictInternal_decoded[OF assms(1,5)]] pairs
    by simp
  then show ?thesis
    using js_sort_mset[OF numbers] js_sort_descending[OF numbers] js_sort_stable[OF numbers]
    by blast
qed

lemma classification_ranking_example:
  "predictInternal example_runtime pets_network (SArray [JNum (Fin 5)])
     = Inr \<lparr>results_output =
              OLabels [\<lparr>label = ''dog'', confidence = Some (Fin (2 / 5))\<rparr>,
                       \<lparr>label = ''bird'', confidence = Some (Fin (2 / 5))\<rparr>,
                       \<lparr>label = ''cat'', confidence = Some (Fin (1 / 5))\<rparr>],
            results_tensor = Some [Fin (1 / 5), Fin (2 / 5), Fin (2 / 5)]\<rparr>
   \<and> (\<exists>ps. OLabels [\<lparr>label = ''dog'', confidence = Some (Fin (2 / 5))\<rparr>,
                     \<lparr>label = ''bird'', confidence = Some (Fin (2 / 5))\<rparr>,
                     \<lparr>label = ''cat'', confidence = Some (Fin (1 / 5))\<rparr>] = OLabels ps
         \<and> mset ps = mset [\<lparr>label = ''cat'', confidence = Some (Fin (1 / 5))\<rparr>,
                            \<lparr>label = ''dog'', confidence = Some (Fin (2 / 5))\<rparr>,
                            \<lparr>label = ''bird'', confidence = Some (Fin (2 / 5))\<rparr>]
         \<and> sorted_wrt (\<lambda>a b. \<not> jlt (confidence_num a) (confidence_num b)) ps)"
proof -
  let ?lg = "[(''cat'', [Fin 1, Fin 0, Fin 0]), (''dog'', [Fin 0, Fin 1, Fin 0]),
              (''bird'', [Fin 0, Fin 0, Fin 1])]"
  let ?cm = "\<lparr>dtype = DString, legend = Some ?lg\<rparr>"
  let ?predictions = "[Fin (1 / 5), Fin (2 / 5), Fin (2 / 5)]"
  let ?res = "\<lparr>results_output =
                 OLabels [\<lparr>label = ''dog'', confidence = Some (Fin (2 / 5))\<rparr>,
                          \<lparr>label = ''bird'', confidence = Some (Fin (2 / 5))\<rparr>,
                          \<lparr>label = ''cat'', confidence = Some (Fin (1 / 5))\<rparr>],
               results_tensor = Some ?predictions\<rparr>"
  have h1: "predictInternal example_runtime pets_network (SArray [JNum (Fin 5)]) = Inr ?res"
    by (simp add: predictInternal_def encodeInput_def encodeColumn_def pets_network_def
        valAt_def numAt_def js_get_def normVal_def jsub_def tf_tensor_def decodeOutput_def
        classifyColumn_def labelPredictions_def enumerate_simps js_sort_def byConfidence_def
        confidence_num_def)
  have h2: "task pets_network = ''classification''" by (simp add: pets_network_def)
  have h3: "outputs (meta pets_network) = (''pet'', ?cm) # []" by (simp add: pets_network_def)
  have h4: "legend ?cm = Some ?lg" by simp
  have h5: "results_tensor ?res = Some ?predictions" by simp
  have h6: "length ?lg \<le> length ?predictions" by simp
  have h7: "NaN \<notin> set ?predictions" by simp
  have h8: "[\<lparr>label = ''cat'', confidence = Some (Fin (1 / 5))\<rparr>,
             \<lparr>label = ''dog'', confidence = Some (Fin (2 / 5))\<rparr>,
             \<lparr>label = ''bird'', confidence = Some (Fin (2 / 5))\<rparr>]
            = map (\<lambda>i. \<lparr>label = fst (?lg ! i), confidence = Some (?predictions ! i)\<rparr>)
                [0..<length ?lg]"
    by (simp add: upt_rec)
  show ?thesis
    using h1 classification_ranking[OF h1 h2 h3 h4 h5 h6 h7 h8] by auto
qed

text \<open>
  C5. The claim pairs each label with the activation at the label's vocabulary index.
  The code pairs it with the activation at its position among the entries of the legend,
  which is another index when the labels are integers that were not first seen in
  ascending order. With the labels 7 (index 0) and 3 (index 1) and the activations 0.9
  and 0.1, the result gives 0.9 to the label 3, whose vocabulary index is 1 and whose
  activation is 0.1.
\<close>

theorem integer_labels_mispaired:
  "predictInternal example_runtime digits_network (SArray [JNum (Fin 5)])
     = Inr \<lparr>results_output =
              OLabels [\<lparr>label = ''3'', confidence = Some (Fin (9 / 10))\<rparr>,
                       \<lparr>label = ''7'', confidence = Some (Fin (1 / 10))\<rparr>],
            results_tensor = Some [Fin (9 / 10), Fin (1 / 10)]\<rparr>
   \<and> vocabularyIndex [(''3'', [Fin 0, Fin 1]), (''7'', [Fin 1, Fin 0])] ''3'' = Some 1
   \<and> js_get [Fin (9 / 10), Fin (1 / 10)] 1 = Some (Fin (1 / 10))
   \<and> vocabularyIndex [(''3'', [Fin 0, Fin 1]), (''7'', [Fin 1, Fin 0])] ''7'' = Some 0
   \<and> js_get [Fin (9 / 10), Fin (1 / 10)] 0 = Some (Fin (9 / 10))"
  by (simp add: predictInternal_def encodeInput_def encodeColumn_def digits_network_def
      valAt_def numAt_def js_get_def normVal_def jsub_def tf_tensor_def decodeOutput_def
      classifyColumn_def labelPredictions_def enumerate_simps js_sort_def byConfidence_def
      confidence_num_def vocabularyIndex_def)

section \<open>Rounding to a 32-bit float\<close>

lemma rne_of_int: "rne (of_int n) = n"
  by (simp add: rne_def)




lemma two_powr_powi: "(2::real) powr (of_int k) = 2 powi k"
  by (simp add: powr_real_of_int power_int_def power_one_over inverse_eq_divide)

lemma two_powi_add: "(2::real) powi (a + b) = 2 powi a * 2 powi b"
  by (simp add: power_int_add)


lemma exponent_abs: "f32_exponent \<bar>r\<bar> = f32_exponent r"
  by (simp add: f32_exponent_def)

lemma exponent_ge: "- 126 \<le> f32_exponent r"
  by (simp add: f32_exponent_def)


lemma exponent_lower:
  assumes "0 < r" and "- 126 < f32_exponent r"
  shows "2 powi (f32_exponent r) \<le> r"
proof -
  have e: "f32_exponent r = \<lfloor>log 2 r\<rfloor>" using assms by (auto simp: f32_exponent_def)
  have "2 powr (of_int \<lfloor>log 2 r\<rfloor>) \<le> r"
    using floor_log_eq_powr_iff[of r 2 "\<lfloor>log 2 r\<rfloor>"] assms by simp
  then show ?thesis by (simp only: two_powr_powi e)
qed


lemma exponent_eq:
  assumes "2 powi e \<le> \<bar>r\<bar>" and "\<bar>r\<bar> < 2 powi (e + 1)" and "- 126 \<le> e"
  shows "f32_exponent r = e"
proof -
  have pos: "0 < \<bar>r\<bar>" using assms(1) by (smt (verit) zero_less_power_int)
  have "2 powr (of_int e) \<le> \<bar>r\<bar>" using assms(1) by (simp only: two_powr_powi)
  moreover have "\<bar>r\<bar> < 2 powr (of_int (e + 1))" using assms(2) by (simp only: two_powr_powi)
  ultimately have "\<lfloor>log 2 \<bar>r\<bar>\<rfloor> = e"
    using floor_log_eq_powr_iff[of "\<bar>r\<bar>" 2 e] pos by simp
  then show ?thesis using assms(3) by (simp add: f32_exponent_def)
qed



lemma unbounded_zero: "f32_unbounded 0 = 0"
  by (simp add: f32_unbounded_def rne_def)

text \<open>A number with at most 24 significant bits above \<open>2^-149\<close> is a float.\<close>

lemma unbounded_exact:
  assumes "r = of_int k * 2 powi j" and "\<bar>k\<bar> < 2 ^ 24" and "- 149 \<le> j"
  shows "f32_unbounded r = r"
proof (cases "r = 0")
  case True
  then show ?thesis by (simp add: unbounded_zero)
next
  case False
  let ?e = "f32_exponent r"
  have apos: "0 < \<bar>r\<bar>" using False by simp
  have "\<bar>r\<bar> = of_int \<bar>k\<bar> * 2 powi j" by (simp add: assms(1) abs_mult)
  also have "\<dots> < of_int (2 ^ 24) * 2 powi j"
    using assms(2) by (intro mult_strict_right_mono) (auto simp: of_int_less_iff[symmetric] simp del: of_int_less_iff)
  also have "\<dots> = 2 powi (j + 24)" by (simp add: two_powi_add)
  finally have below: "\<bar>r\<bar> < 2 powi (j + 24)" .
  have le: "?e \<le> j + 23"
  proof (cases "- 126 < ?e")
    case True
    have "2 powi ?e \<le> \<bar>r\<bar>"
      using exponent_lower[OF apos] True by (simp add: exponent_abs)
    with below have lt: "(2::real) powi ?e < 2 powi (j + 24)" by simp
    have "?e < j + 24"
    proof (rule ccontr)
      assume "\<not> ?e < j + 24"
      then have "(2::real) powi (j + 24) \<le> 2 powi ?e"
        by (intro power_int_increasing) auto
      with lt show False by simp
    qed
    then show ?thesis by simp
  next
    case False
    then have "?e = - 126" using exponent_ge[of r] by simp
    then show ?thesis using assms(3) by simp
  qed
  define n where "n = nat (j + 23 - ?e)"
  define u :: real where "u = 2 powi (?e - 23)"
  have upos: "0 < u" by (simp add: u_def)
  have n: "j = (?e - 23) + int n" using le by (simp add: n_def)
  have "(2::real) powi j = 2 powi ((?e - 23) + int n)" using n by simp
  also have "\<dots> = u * 2 ^ n" by (simp only: two_powi_add power_int_of_nat u_def)
  finally have pj: "2 powi j = u * 2 ^ n" .
  have ru: "r = of_int (k * 2 ^ n) * u" by (simp add: assms(1) pj)
  then have "r / u = of_int (k * 2 ^ n)" using upos by simp
  then have "rne (r / u) = k * 2 ^ n" by (simp only: rne_of_int)
  then have "f32_unbounded r = of_int (k * 2 ^ n) * u"
    by (simp add: f32_unbounded_def u_def)
  then show ?thesis using ru by simp
qed

lemma f32_round_exact:
  assumes "r = of_int k * 2 powi j" and "\<bar>k\<bar> < 2 ^ 24" and "- 149 \<le> j" and "\<bar>r\<bar> < 2 ^ 128"
  shows "f32_round r = Fin r"
proof -
  have "f32_unbounded r = r" by (rule unbounded_exact[OF assms(1-3)])
  moreover have "r < 2 ^ 128" and "- (2 ^ 128) < r" using assms(4) by (simp_all add: abs_less_iff)
  ultimately show ?thesis by (simp add: f32_round_def)
qed

lemma f32_round_int:
  assumes "\<bar>k\<bar> < 16777216"
  shows "f32_round (of_int k) = Fin (of_int k)"
proof (rule f32_round_exact[of _ k 0])
  show "\<bar>real_of_int k\<bar> < 2 ^ 128"
  proof -
    have "\<bar>real_of_int k\<bar> < 16777216" using assms by linarith
    then show ?thesis by simp
  qed
qed (use assms in simp_all)

lemma f32_round_dyadic:
  assumes "\<bar>k\<bar> < 16777216" and "n \<le> 149"
  shows "f32_round (of_int k / 2 ^ n) = Fin (of_int k / 2 ^ n)"
proof (rule f32_round_exact[of _ k "- int n"])
  show "real_of_int k / 2 ^ n = real_of_int k * 2 powi (- int n)"
    by (simp add: power_int_minus field_simps)
  have "\<bar>real_of_int k / 2 ^ n\<bar> \<le> \<bar>real_of_int k\<bar>"
    by (simp add: field_simps mult_le_cancel_left1)
  moreover have "\<bar>real_of_int k\<bar> < 16777216" using assms(1) by linarith
  ultimately show "\<bar>real_of_int k / 2 ^ n\<bar> < 2 ^ 128" by simp
qed (use assms in simp_all)




section \<open>\<open>normalize\<close> of the second class\<close>











lemmas f32_values =
  f32_round_int[of 0, simplified] f32_round_int[of 1, simplified]
  f32_round_int[of 2, simplified] f32_round_int[of 3, simplified]
  f32_round_int[of 4, simplified] f32_round_int[of 5, simplified]
  f32_round_int[of 6, simplified] f32_round_int[of 7, simplified]
  f32_round_int[of "- 1", simplified] f32_round_int[of "- 2", simplified]
  f32_round_int[of "- 3", simplified] f32_round_int[of "- 4", simplified]
  f32_round_int[of "- 6", simplified]
  f32_round_dyadic[of "- 1" 1, simplified] f32_round_dyadic[of "- 1" 2, simplified]



text \<open>
  Targets that differ as doubles but are the same 32-bit float make a constant column
  too: 16777217 is stored as 16777216.
\<close>

lemma f32_round_16777217: "f32_round 16777217 = Fin 16777216"
proof -
  have "f32_exponent 16777217 = 24"
    by (rule exponent_eq) simp_all
  then show ?thesis
    by (simp add: f32_round_def f32_unbounded_def rne_def)
qed

lemma f32_round_16777216: "f32_round 16777216 = Fin 16777216"
  using f32_round_exact[of 16777216 8388608 1] by simp

lemma normalize_rounded_targets:
  "normalize example_tf example_config [example_row 1 16777216, example_row 1 16777217]
     = Inr \<lparr>norm_inputs = \<lparr>shape = [2, 1], vals = [Fin (- 1), Fin (- 1)]\<rparr>,
            norm_targets = \<lparr>shape = [2], vals = [NaN, NaN]\<rparr>,
            norm_inputMax = Fin 1, norm_inputMin = Fin 1,
            norm_targetMax = Fin 16777216, norm_targetMin = Fin 16777216\<rparr>"
  by (simp add: normalize_def normalize_with_def Let_def example_tf_def example_config_def
      example_row_def constructor_config_def createModel_config_def config_of_options_def
      js_or_def outputLabel_of_def tensor_max_def tensor_min_def f32_sub_def f32_div_def
      jsub_def signed_inf_def f32_values f32_round_16777216 f32_round_16777217
      f32_round_int[of 16777215, simplified] f32_round_int[of "- 16777215", simplified])

text \<open>
  The inputs are rescaled with the bounds of the targets: line 720 subtracts \<open>targetMin\<close>
  and divides by \<open>targetMax - inputMin\<close>. Inputs 2 and 4 with targets 0 and 1 become
  -2 and -4.
\<close>

lemma normalize_inputs_by_target_bounds:
  "normalize example_tf example_config [example_row 2 0, example_row 4 1]
     = Inr \<lparr>norm_inputs = \<lparr>shape = [2, 1], vals = [Fin (- 2), Fin (- 4)]\<rparr>,
            norm_targets = \<lparr>shape = [2], vals = [Fin 0, Fin 1]\<rparr>,
            norm_inputMax = Fin 4, norm_inputMin = Fin 2,
            norm_targetMax = Fin 1, norm_targetMin = Fin 0\<rparr>"
  by (simp add: normalize_def normalize_with_def Let_def example_tf_def example_config_def
      example_row_def constructor_config_def createModel_config_def config_of_options_def
      js_or_def outputLabel_of_def tensor_max_def tensor_min_def f32_sub_def f32_div_def
      jsub_def f32_values)

section \<open>Loading data of an unsupported format\<close>

text \<open>
  C7 (as amended). For a locator that does not end in \<open>.csv\<close> or \<open>.json\<close> and does not
  contain \<open>blob\<close>, \<open>loadDataInternal\<close> calls no loader and throws nothing: it writes
  "Not a valid data format. Must be csv or json" to the console and goes on to create
  the metadata and warm up on the data already stored. Its outcome is the outcome of
  these two steps.
\<close>

theorem unsupported_format_is_logged:
  assumes "\<not> endsWith (dataUrl options) ''.csv''"
    and "\<not> endsWith (dataUrl options) ''.json''"
    and "\<not> includes_str (dataUrl options) ''blob''"
    and "st' = st\<lparr>console := console st @ [''Not a valid data format. Must be csv or json'']\<rparr>"
  shows "loadByFormat nnd options st = Inr st'
         \<and> loadDataInternal nnd options st = prepareData nnd st'"
  using assms by (simp add: loadDataInternal_def loadByFormat_def)

theorem unsupported_format_is_logged_witness:
  "loadByFormat example_data \<lparr>dataUrl = ''data.txt'', opt_inputs = JNull, opt_outputs = JNull\<rparr>
     initial_state
     = Inr (initial_state\<lparr>console := [''Not a valid data format. Must be csv or json'']\<rparr>)
   \<and> loadDataInternal example_data
        \<lparr>dataUrl = ''data.txt'', opt_inputs = JNull, opt_outputs = JNull\<rparr> initial_state
     = prepareData example_data
         (initial_state\<lparr>console := [''Not a valid data format. Must be csv or json'']\<rparr>)"
proof -
  let ?o = "\<lparr>dataUrl = ''data.txt'', opt_inputs = JNull, opt_outputs = JNull\<rparr>"
  have h1: "\<not> endsWith (dataUrl ?o) ''.csv''" by (simp add: endsWith_def)
  have h2: "\<not> endsWith (dataUrl ?o) ''.json''" by (simp add: endsWith_def)
  have h3: "\<not> includes_str (dataUrl ?o) ''blob''" by simp
  have h4: "initial_state\<lparr>console := [''Not a valid data format. Must be csv or json'']\<rparr>
            = initial_state\<lparr>console := console initial_state
                @ [''Not a valid data format. Must be csv or json'']\<rparr>"
    by (simp add: initial_state_def)
  show ?thesis
    by (rule unsupported_format_is_logged[OF h1 h2 h3 h4])
qed

text \<open>
  Loading \<open>data.txt\<close> does not fail with an UnsupportedFormat error: the promise
  resolves, with the message on the console and metadata made from the empty dataset.
\<close>

theorem unsupported_format_counterexample:
  "loadDataInternal example_data
     \<lparr>dataUrl = ''data.txt'', opt_inputs = JNull, opt_outputs = JNull\<rparr> initial_state
     = Inr \<lparr>raw = [],
            stored_meta = Some \<lparr>meta_inputs = [''x''], meta_outputs = [''y''],
                                 meta_inputUnits = JNum (Fin 1), meta_outputUnits = JNum (Fin 1)\<rparr>,
            training = [],
            console = [''Not a valid data format. Must be csv or json'']\<rparr>
   \<and> loadDataInternal example_data
        \<lparr>dataUrl = ''data.txt'', opt_inputs = JNull, opt_outputs = JNull\<rparr> initial_state
       \<noteq> Inl (UserError ''UnsupportedFormat'')"
  by (simp add: loadDataInternal_def loadByFormat_def prepareData_def
      diy_createMetaDataFromData_def warmUp_def summarizeData_def endsWith_def Let_def
      example_data_def initial_state_def)

section \<open>The layout of an encoded sample\<close>

lemma encodeColumn_append:
  "encodeColumn rt nn inputData acc arr =
     (case encodeColumn rt nn inputData [] arr of Inl e \<Rightarrow> Inl e | Inr seg \<Rightarrow> Inr (acc @ seg))"
  by (simp add: encodeColumn_def Let_def split: dtype.splits option.splits sum.splits)

lemma encodeColumns_concat:
  "encodeColumns rt nn inputData acc cols =
     (case map_throwing (encodeColumn rt nn inputData []) cols of
        Inl e \<Rightarrow> Inl e
      | Inr segs \<Rightarrow> Inr (acc @ concat segs))"
proof (induction cols arbitrary: acc)
  case Nil
  then show ?case by simp
next
  case (Cons c cols)
  show ?case
    using encodeColumn_append[of rt nn inputData acc c]
    by (simp add: Cons.IH split: sum.splits)
qed

lemma segment_width:
  assumes "inferredColumn (snd arr)" and "encodeColumn rt nn inputData [] arr = Inr seg"
  shows "length seg = columnWidth (snd arr)"
proof (cases "dtype (snd arr)")
  case DNumber
  then show ?thesis using assms(2) by (auto simp: encodeColumn_def Let_def columnWidth_def)
next
  case DString
  with assms(1) obtain lg where lg: "legend (snd arr) = Some lg"
    and all: "list_all (\<lambda>legendArr. length (snd legendArr) = length lg) lg"
    by (auto simp: inferredColumn_def split: option.splits)
  from assms(2) DString lg obtain k where "map_of lg k = Some seg"
    by (auto simp: encodeColumn_def Let_def legend_lookup_def split: option.splits)
  then have "(k, seg) \<in> set lg" by (rule map_of_SomeD)
  with all have "length seg = length lg" by (auto simp: list_all_iff)
  then show ?thesis using DString lg by (simp add: columnWidth_def)
next
  case DOther
  then show ?thesis using assms(1) by (simp add: inferredColumn_def)
qed

lemma segments_layout:
  assumes "map_throwing (encodeColumn rt nn inputData []) cols = Inr segs"
    and "list_all (\<lambda>arr. inferredColumn (snd arr)) cols"
  shows "map length segs = rowLayout cols"
  using assms
proof (induction cols arbitrary: segs)
  case Nil
  then show ?case by (simp add: rowLayout_def)
next
  case (Cons c cols)
  from Cons.prems(1) obtain seg rest where
    seg: "encodeColumn rt nn inputData [] c = Inr seg"
    and rest: "map_throwing (encodeColumn rt nn inputData []) cols = Inr rest"
    and segs: "segs = seg # rest"
    by (auto split: sum.splits)
  have "length seg = columnWidth (snd c)"
    using segment_width[OF _ seg] Cons.prems(2) by simp
  moreover have "map length rest = rowLayout cols"
    using Cons.IH[OF rest] Cons.prems(2) by simp
  ultimately show ?case by (simp add: segs rowLayout_def)
qed

text \<open>
  C8. When the sample is encoded with descriptors as schema inference leaves them, the
  encoded vector is the concatenation of one segment per input column, in the order in
  which \<open>meta.inputs\<close> lists the columns, each segment as wide as its column is in a
  row of the training tensor (1 for a numeric column, the size of the vocabulary for a
  categorical one). Its length is the total of these widths, so with \<open>inputUnits\<close> equal
  to that total the tensor of shape \<open>[1, inputUnits]\<close> is made of it.
\<close>

theorem encoded_sample_layout:
  assumes "encodeInput rt nn s = Inr v"
    and "list_all (\<lambda>arr. inferredColumn (snd arr)) (inputs (meta nn))"
    and "inputUnits (meta nn) = derivedUnits (inputs (meta nn))"
  shows "\<exists>segs. map_throwing (encodeColumn rt nn (inputData_of nn s) []) (inputs (meta nn)) = Inr segs
           \<and> v = concat segs
           \<and> map length segs = rowLayout (inputs (meta nn))
           \<and> length v = inputUnits (meta nn)
           \<and> tf_tensor v [1, inputUnits (meta nn)] = Inr v"
proof -
  from assms(1) obtain segs where
    segs: "map_throwing (encodeColumn rt nn (inputData_of nn s) []) (inputs (meta nn)) = Inr segs"
    and v: "v = concat segs"
    by (auto simp: encodeInput_def encodeColumns_concat split: sum.splits)
  have layout: "map length segs = rowLayout (inputs (meta nn))"
    by (rule segments_layout[OF segs assms(2)])
  have "length v = sum_list (map length segs)" by (simp add: v length_concat)
  then have len: "length v = inputUnits (meta nn)"
    by (simp add: layout assms(3) derivedUnits_def)
  then have "tf_tensor v [1, inputUnits (meta nn)] = Inr v" by (simp add: tf_tensor_def)
  with segs v layout len show ?thesis by blast
qed

theorem encoded_sample_layout_witness:
  "encodeInput example_runtime shop_network (shop_sample ''red'' 4) = Inr [Fin 1, Fin 0, Fin (1 / 2)]
   \<and> rowLayout (inputs (meta shop_network)) = [2, 1]
   \<and> (\<exists>segs. map_throwing
                (encodeColumn example_runtime shop_network
                   (inputData_of shop_network (shop_sample ''red'' 4)) [])
                (inputs (meta shop_network)) = Inr segs
         \<and> [Fin 1, Fin 0, Fin (1 / 2)] = concat segs
         \<and> map length segs = rowLayout (inputs (meta shop_network))
         \<and> length [Fin 1, Fin 0, Fin (1 / 2)] = inputUnits (meta shop_network)
         \<and> tf_tensor [Fin 1, Fin 0, Fin (1 / 2)] [1, inputUnits (meta shop_network)]
             = Inr [Fin 1, Fin 0, Fin (1 / 2)])"
proof -
  have h1: "encodeInput example_runtime shop_network (shop_sample ''red'' 4)
              = Inr [Fin 1, Fin 0, Fin (1 / 2)]"
    by (simp add: encodeInput_def encodeColumn_def legend_lookup_def shop_network_def
        shop_sample_def valAt_def numAt_def js_get_def normVal_def jsub_def)
  have h2: "list_all (\<lambda>arr. inferredColumn (snd arr)) (inputs (meta shop_network))"
    by (simp add: shop_network_def inferredColumn_def)
  have l: "rowLayout (inputs (meta shop_network)) = [2, 1]"
    by (simp add: shop_network_def rowLayout_def columnWidth_def)
  have h3: "inputUnits (meta shop_network) = derivedUnits (inputs (meta shop_network))"
    by (simp add: derivedUnits_def l) (simp add: shop_network_def)
  show ?thesis
    using h1 l encoded_sample_layout[OF h1 h2 h3] by blast
qed

section \<open>The wrappers of schema inference and statistics\<close>

text \<open>
  \<open>createMetaDataFromData\<close> followed by \<open>summarizeData\<close> passes on what the methods of
  the data class return, and reads nothing of the state it starts from but the methods'
  results: the metadata are those of \<open>createMetaDataFromData\<close> of the raw data, with the
  input and the output descriptors replaced by their \<open>getRawStats\<close>. What the methods
  themselves compute is not among the sources.
\<close>

lemma wrappers_pass_on_metadata:
  "map_sum id fst (inferAndSummarize nnd dataRaw st)
     = map_sum id fst (inferAndSummarize nnd dataRaw st')
   \<and> map_sum id fst (inferAndSummarize nnd dataRaw st)
     = (case createMetaDataFromData nnd dataRaw of
          Inl e \<Rightarrow> Inl e
        | Inr m \<Rightarrow>
            (case getRawStats nnd dataRaw (meta_inputs m) ''xs'' of
               Inl e \<Rightarrow> Inl e
             | Inr inputMeta \<Rightarrow>
                 (case getRawStats nnd dataRaw (meta_outputs m) ''ys'' of
                    Inl e \<Rightarrow> Inl e
                  | Inr outputMeta \<Rightarrow>
                      Inr (m\<lparr>meta_inputs := inputMeta, meta_outputs := outputMeta\<rparr>))))"
  by (simp add: inferAndSummarize_def diy_createMetaDataFromData_def summarizeData_def Let_def
      split: sum.splits)

section \<open>The learning rate of the second class\<close>

text \<open>
  C10. In the constructor of the second \<open>NeuralNetwork\<close> class, when \<open>options.outputs\<close>
  is truthy the configured \<open>learningRate\<close> is \<open>options.outputs\<close>, the same value as
  \<open>outputUnits\<close>; when it is falsy the learning rate is the default 0.25. The
  constructor does not read \<open>options.learningRate\<close>: changing that option changes
  nothing of the configuration.
\<close>

theorem learningRate_from_outputs:
  assumes "truthy (options ''outputs'')"
  shows "cfg_learningRate (constructor_config options) = options ''outputs''
         \<and> cfg_learningRate (constructor_config options) = cfg_outputUnits (constructor_config options)
         \<and> constructor_config (options(''learningRate'' := x)) = constructor_config options"
  using assms
  by (simp add: constructor_config_def createModel_config_def config_of_options_def js_or_def)

lemma learningRate_default:
  "\<not> truthy (options ''outputs'')
     \<Longrightarrow> cfg_learningRate (constructor_config options) = JNum (Fin (1 / 4))"
  by (simp add: constructor_config_def createModel_config_def config_of_options_def js_or_def)

theorem learningRate_from_outputs_witness:
  "cfg_learningRate
     (constructor_config
        (\<lambda>k. if k = ''outputs'' then JNum (Fin 3)
              else if k = ''learningRate'' then JNum (Fin (1 / 10)) else JUndefined))
     = JNum (Fin 3)"
proof -
  let ?options = "\<lambda>k. if k = ''outputs'' then JNum (Fin 3)
                       else if k = ''learningRate'' then JNum (Fin (1 / 10)) else JUndefined"
  have h: "truthy (?options ''outputs'')" by simp
  show ?thesis using h learningRate_from_outputs[of ?options] by simp
qed

end
